theory Spec2Isabelle
  imports Complex_Main
begin

section \<open>Numbers of the source language\<close>

text \<open>
  The analysis engine is written in TypeScript; every number is an IEEE double.
  Numbers that enter the engine (prices, volumes, capital) are modelled as reals:
  finite doubles without rounding and without overflow.  A division of the source
  whose divisor can be zero does not fail: it yields \<open>NaN\<close> or an infinity, and
  the comparisons that follow are decided by that value.  Such results are kept
  in the type \<open>jsnum\<close>, whose operations follow the IEEE rules on the non-finite
  values.  The sign of a zero is not modelled: a zero divisor counts as \<open>+0\<close>.

  Counts of candles (periods, window sizes, numbers of bins) are natural numbers.
  A field or variable that may be \<open>undefined\<close> or \<open>null\<close> is an option.
\<close>

datatype jsnum = Fin real | PosInf | NegInf | NaN

definition inf_of_sign :: "real \<Rightarrow> jsnum" where
  "inf_of_sign s = (if 0 < s then PosInf else if s < 0 then NegInf else NaN)"

fun js_neg :: "jsnum \<Rightarrow> jsnum" where
  "js_neg (Fin a) = Fin (- a)"
| "js_neg PosInf = NegInf"
| "js_neg NegInf = PosInf"
| "js_neg NaN = NaN"

fun js_add :: "jsnum \<Rightarrow> jsnum \<Rightarrow> jsnum" where
  "js_add (Fin a) (Fin b) = Fin (a + b)"
| "js_add NaN _ = NaN"
| "js_add _ NaN = NaN"
| "js_add PosInf NegInf = NaN"
| "js_add NegInf PosInf = NaN"
| "js_add PosInf _ = PosInf"
| "js_add _ PosInf = PosInf"
| "js_add NegInf _ = NegInf"
| "js_add _ NegInf = NegInf"

definition js_sub :: "jsnum \<Rightarrow> jsnum \<Rightarrow> jsnum" where
  "js_sub a b = js_add a (js_neg b)"

fun js_mul :: "jsnum \<Rightarrow> jsnum \<Rightarrow> jsnum" where
  "js_mul (Fin a) (Fin b) = Fin (a * b)"
| "js_mul NaN _ = NaN"
| "js_mul _ NaN = NaN"
| "js_mul PosInf (Fin b) = inf_of_sign b"
| "js_mul NegInf (Fin b) = inf_of_sign (- b)"
| "js_mul (Fin a) PosInf = inf_of_sign a"
| "js_mul (Fin a) NegInf = inf_of_sign (- a)"
| "js_mul PosInf PosInf = PosInf"
| "js_mul NegInf NegInf = PosInf"
| "js_mul PosInf NegInf = NegInf"
| "js_mul NegInf PosInf = NegInf"

fun js_div :: "jsnum \<Rightarrow> jsnum \<Rightarrow> jsnum" where
  "js_div (Fin a) (Fin b) = (if b = 0 then inf_of_sign a else Fin (a / b))"
| "js_div NaN _ = NaN"
| "js_div _ NaN = NaN"
| "js_div (Fin a) PosInf = Fin 0"
| "js_div (Fin a) NegInf = Fin 0"
| "js_div PosInf (Fin b) = (if b < 0 then NegInf else PosInf)"
| "js_div NegInf (Fin b) = (if b < 0 then PosInf else NegInf)"
| "js_div _ _ = NaN"

fun js_abs :: "jsnum \<Rightarrow> jsnum" where
  "js_abs (Fin a) = Fin \<bar>a\<bar>"
| "js_abs NaN = NaN"
| "js_abs _ = PosInf"

text \<open>Comparisons: every comparison with \<open>NaN\<close> is false.\<close>

fun js_lt :: "jsnum \<Rightarrow> jsnum \<Rightarrow> bool" where
  "js_lt (Fin a) (Fin b) = (a < b)"
| "js_lt NaN _ = False"
| "js_lt _ NaN = False"
| "js_lt _ NegInf = False"
| "js_lt PosInf _ = False"
| "js_lt _ _ = True"

definition js_gt :: "jsnum \<Rightarrow> jsnum \<Rightarrow> bool" where
  "js_gt a b = js_lt b a"

text \<open>Strict equality \<open>===\<close> on numbers: \<open>NaN\<close> equals nothing, itself included.\<close>

fun js_eq :: "jsnum \<Rightarrow> jsnum \<Rightarrow> bool" where
  "js_eq NaN _ = False"
| "js_eq _ NaN = False"
| "js_eq a b = (a = b)"

text \<open>
  \<open>Math.max\<close> and \<open>Math.min\<close>: \<open>NaN\<close> if an argument is \<open>NaN\<close>; without arguments
  \<open>-Infinity\<close> and \<open>Infinity\<close>.
\<close>

definition js_max :: "jsnum \<Rightarrow> jsnum \<Rightarrow> jsnum" where
  "js_max a b = (if a = NaN \<or> b = NaN then NaN else if js_lt a b then b else a)"

definition js_min :: "jsnum \<Rightarrow> jsnum \<Rightarrow> jsnum" where
  "js_min a b = (if a = NaN \<or> b = NaN then NaN else if js_lt b a then b else a)"

definition js_max_list :: "jsnum list \<Rightarrow> jsnum" where
  "js_max_list xs = foldl js_max NegInf xs"

definition js_min_list :: "jsnum list \<Rightarrow> jsnum" where
  "js_min_list xs = foldl js_min PosInf xs"

text \<open>Truthiness of a number: \<open>0\<close> and \<open>NaN\<close> are falsy.\<close>

fun js_truthy :: "jsnum \<Rightarrow> bool" where
  "js_truthy (Fin a) = (a \<noteq> 0)"
| "js_truthy NaN = False"
| "js_truthy _ = True"

text \<open>\<open>x || d\<close> on an optional number: \<open>undefined\<close> and \<open>0\<close> give the default.\<close>

definition or_default :: "real option \<Rightarrow> real \<Rightarrow> real" where
  "or_default x d = (case x of None \<Rightarrow> d | Some v \<Rightarrow> if v = 0 then d else v)"

text \<open>
  \<open>xs.slice(-n)\<close>: the last \<open>n\<close> elements (all of them when there are fewer);
  \<open>slice(-0)\<close> is \<open>slice(0)\<close>, the whole array.
\<close>

definition slice_last :: "nat \<Rightarrow> 'a list \<Rightarrow> 'a list" where
  "slice_last n xs = (if n = 0 then xs else drop (length xs - n) xs)"

text \<open>\<open>xs[xs.length - 1]\<close>, which is \<open>undefined\<close> on the empty array.\<close>

definition last_opt :: "'a list \<Rightarrow> 'a option" where
  "last_opt xs = (if xs = [] then None else Some (last xs))"

text \<open>\<open>xs[i]\<close> on an array of optional values: \<open>undefined\<close> out of range.\<close>

definition nth_opt :: "'a option list \<Rightarrow> nat \<Rightarrow> 'a option" where
  "nth_opt xs i = (if i < length xs then xs ! i else None)"

section \<open>Candles\<close>

text \<open>The fields of \<open>ChartPoint\<close> that the engine reads; optional fields are options.\<close>

record ChartPoint =
  time :: string
  price :: real
  volume :: "real option"
  high :: "real option"
  low :: "real option"

section \<open>Whale and anomaly detection\<close>

datatype NetFlow = ACCUMULATION_FLOW | DISTRIBUTION_FLOW | NEUTRAL_FLOW

text \<open>
  The alert texts of the source are Arabic string literals; each literal is one
  constructor here, named after its meaning.
\<close>

datatype WhaleAlert =
    InsufficientData      \<comment> \<open>"data not sufficient for the analysis"\<close>
  | NoAbnormalActivity    \<comment> \<open>"no abnormal activity"\<close>
  | HiddenBuyWall         \<comment> \<open>"hidden buy wall ... (absorption)"\<close>
  | ViolentDump           \<comment> \<open>"violent distribution ..."\<close>
  | FakeRally             \<comment> \<open>"fake rally ... (Trap)"\<close>
  | InstitutionalBuying   \<comment> \<open>"institutional buying ..."\<close>

record WhaleMetrics =
  netFlowStatus :: NetFlow
  volumeAnomalyFactor :: real
  turnoverRatio :: real
  whaleAlert :: WhaleAlert

text \<open>
  Position of the close inside the last candle's range,
  \<open>(price - (low || price)) / ((high || price) - (low || price))\<close>; the divisor is
  zero on a candle without range.
\<close>

definition closePosition :: "ChartPoint \<Rightarrow> jsnum" where
  "closePosition c =
     js_div (Fin (price c - or_default (low c) (price c)))
            (Fin (or_default (high c) (price c) - or_default (low c) (price c)))"

definition detectWhaleMovements ::
    "real \<Rightarrow> real \<Rightarrow> real \<Rightarrow> real \<Rightarrow> ChartPoint list \<Rightarrow> WhaleMetrics" where
  "detectWhaleMovements currentPrice priceChange24h volume24h marketCap history =
     (if length history < 24 then
        \<lparr> netFlowStatus = NEUTRAL_FLOW, volumeAnomalyFactor = 0, turnoverRatio = 0,
          whaleAlert = InsufficientData \<rparr>
      else
        let turnover = (if marketCap > 0 then (volume24h / marketCap) * 100 else 0);
            recentVols = map (\<lambda>h. or_default (volume h) 0) (slice_last 24 history);
            avgVol = sum_list recentVols /
                       (if length recentVols = 0 then 1 else real (length recentVols));
            anomalyFactor = (if avgVol > 0 then volume24h / (avgVol * 24) else 1);
            isHighClose = (case last_opt history of
                             None \<Rightarrow> False
                           | Some c \<Rightarrow> js_gt (closePosition c) (Fin 0.7));
            isLowClose = (case last_opt history of
                             None \<Rightarrow> False
                           | Some c \<Rightarrow> js_lt (closePosition c) (Fin 0.3));
            verdict =
              (if anomalyFactor > 1.5 \<and> \<bar>priceChange24h\<bar> < 3 then
                 (ACCUMULATION_FLOW, HiddenBuyWall)
               else if anomalyFactor > 2.0 \<and> priceChange24h < - 5 then
                 (DISTRIBUTION_FLOW, ViolentDump)
               else if priceChange24h > 5 \<and> anomalyFactor < 0.8 then
                 (DISTRIBUTION_FLOW, FakeRally)
               else if anomalyFactor > 2.0 \<and> isHighClose then
                 (ACCUMULATION_FLOW, InstitutionalBuying)
               else (NEUTRAL_FLOW, NoAbnormalActivity))
        in \<lparr> netFlowStatus = fst verdict, volumeAnomalyFactor = anomalyFactor,
             turnoverRatio = turnover, whaleAlert = snd verdict \<rparr>)"

section \<open>Indicator library\<close>

subsection \<open>Exponential moving average\<close>

text \<open>
  \<open>calculateEMA\<close>: the array is padded with \<open>NaN\<close> before the seed.  The seed sums
  \<open>prices[i] || 0\<close>, which is \<open>prices[i]\<close> for every finite price.
\<close>

fun ema_loop :: "real \<Rightarrow> jsnum \<Rightarrow> real list \<Rightarrow> jsnum list" where
  "ema_loop k ema [] = []"
| "ema_loop k ema (p # ps) =
     (let ema' = js_add (Fin (p * k)) (js_mul ema (Fin (1 - k)))
      in ema' # ema_loop k ema' ps)"

definition calculateEMA :: "real list \<Rightarrow> nat \<Rightarrow> jsnum list" where
  "calculateEMA prices period =
     (if length prices < period then replicate (length prices) NaN
      else
        let k = 2 / (real period + 1);
            ema0 = js_div (Fin (sum_list (take period prices))) (Fin (real period))
        in replicate (period - 1) NaN @ [ema0] @ ema_loop k ema0 (drop period prices))"

subsection \<open>Relative strength index, Wilder smoothing\<close>

definition changes :: "real list \<Rightarrow> real list" where
  "changes prices =
     map (\<lambda>i. if i = 0 then 0 else prices ! i - prices ! (i - 1)) [0..<length prices]"

text \<open>The value pushed for one index, from the two rolling averages.\<close>

definition rsi_value :: "jsnum \<Rightarrow> jsnum \<Rightarrow> jsnum" where
  "rsi_value avgGain avgLoss =
     (if js_eq avgLoss (Fin 0) then Fin 100
      else let rs = js_div avgGain avgLoss
           in js_sub (Fin 100) (js_div (Fin 100) (js_add (Fin 1) rs)))"

text \<open>
  One iteration of the loop over \<open>i\<close>; the state is \<open>(avgGain, avgLoss, rsiArray)\<close>.
  An entry \<open>None\<close> is \<open>undefined\<close>.
\<close>

definition rsi_step ::
    "real list \<Rightarrow> nat \<Rightarrow> jsnum \<times> jsnum \<times> jsnum option list \<Rightarrow> nat
       \<Rightarrow> jsnum \<times> jsnum \<times> jsnum option list" where
  "rsi_step chs period st i =
     (case st of (avgGain, avgLoss, rsiArray) \<Rightarrow>
        if i < period then (avgGain, avgLoss, rsiArray @ [None])
        else
          let change = chs ! i;
              gain = (if change > 0 then change else 0);
              loss = (if change < 0 then \<bar>change\<bar> else 0);
              avgs =
                (if i = period then
                   let sumGain = (\<Sum>j\<leftarrow>[1..<period + 1]. if chs ! j > 0 then chs ! j else 0);
                       sumLoss = (\<Sum>j\<leftarrow>[1..<period + 1]. if chs ! j > 0 then 0 else \<bar>chs ! j\<bar>)
                   in (js_div (Fin sumGain) (Fin (real period)),
                       js_div (Fin sumLoss) (Fin (real period)))
                 else
                   (js_div (js_add (js_mul avgGain (Fin (real period - 1))) (Fin gain))
                           (Fin (real period)),
                    js_div (js_add (js_mul avgLoss (Fin (real period - 1))) (Fin loss))
                           (Fin (real period))))
          in (fst avgs, snd avgs, rsiArray @ [Some (rsi_value (fst avgs) (snd avgs))]))"

text \<open>The loop state after the iterations \<open>0, \<dots>, n - 1\<close>.\<close>

definition rsi_state :: "real list \<Rightarrow> nat \<Rightarrow> nat \<Rightarrow> jsnum \<times> jsnum \<times> jsnum option list" where
  "rsi_state prices period n =
     foldl (rsi_step (changes prices) period) (Fin 0, Fin 0, []) [0..<n]"

definition calculateRSIArray :: "real list \<Rightarrow> nat \<Rightarrow> jsnum option list" where
  "calculateRSIArray prices period =
     (if length prices < period + 1 then replicate (length prices) None
      else snd (snd (rsi_state prices period (length prices))))"

text \<open>\<open>calculateRSI\<close>: the last entry, \<open>null\<close> (here \<open>None\<close>) without enough data.\<close>

definition calculateRSI :: "real list \<Rightarrow> nat \<Rightarrow> jsnum option" where
  "calculateRSI prices period =
     (if length prices \<le> period then None
      else case last_opt (calculateRSIArray prices period) of
             None \<Rightarrow> None
           | Some lastRsi \<Rightarrow> lastRsi)"


section \<open>Technical scoring engine\<close>

datatype Trend = UPTREND | DOWNTREND | RANGING

datatype DivergenceType = BULLISH | BEARISH | NONE
datatype DivergenceStrength = WEAK | MEDIUM | STRONG

record DivergenceResult =
  dtype :: DivergenceType
  strength :: DivergenceStrength

record StochRSI =
  stochK :: jsnum
  stochD :: jsnum
  rawK :: "jsnum option"

text \<open>
  \<open>calculateTechnicalScore\<close> (six parameters).  \<open>rsi\<close> and \<open>adx\<close> are \<open>number | null\<close>.
  The momentum term needs a last EMA that is truthy and not \<open>NaN\<close>; on an empty price
  array both \<open>lastPrice\<close> and \<open>lastEma\<close> are \<open>undefined\<close> and the term is skipped.
\<close>

definition calculateTechnicalScore ::
    "real list \<Rightarrow> jsnum option \<Rightarrow> jsnum option \<Rightarrow> StochRSI option \<Rightarrow> Trend
       \<Rightarrow> DivergenceResult \<Rightarrow> real" where
  "calculateTechnicalScore prices rsi adx stochRsi trend divergence =
     (let score0 = 50;
          ema9 = calculateEMA prices 9;
          score1 =
            (case (last_opt prices, last_opt ema9) of
               (Some lastPrice, Some lastEma) \<Rightarrow>
                 if js_truthy lastEma then
                   (if js_gt (Fin lastPrice) lastEma then score0 + 12 else score0 - 12)
                 else score0
             | _ \<Rightarrow> score0);
          score2 = (if trend = UPTREND then score1 + 10
                    else if trend = DOWNTREND then score1 - 10 else score1);
          score3 =
            (case rsi of
               None \<Rightarrow> score2
             | Some r \<Rightarrow>
                 if js_lt r (Fin 30) then score2 + 10
                 else if js_gt r (Fin 70) then score2 - 10
                 else if js_gt r (Fin 50) \<and> trend = UPTREND then score2 + 5
                 else score2);
          score4 =
            (case adx of
               None \<Rightarrow> score3
             | Some a \<Rightarrow>
                 if js_gt a (Fin 25) then
                   (if trend = UPTREND then score3 + 10
                    else if trend = DOWNTREND then score3 - 10 else score3)
                 else score3);
          score5 =
            (case stochRsi of
               None \<Rightarrow> score4
             | Some s \<Rightarrow>
                 let kk = (case rawK s of Some rk \<Rightarrow> rk | None \<Rightarrow> stochK s)
                 in if js_lt kk (Fin 20) then score4 + 10
                    else if js_gt kk (Fin 80) then score4 - 10
                    else score4);
          score6 = (if dtype divergence = BULLISH then score5 + 15
                    else if dtype divergence = BEARISH then score5 - 15 else score5)
      in max 0 (min 100 score6))"

subsection \<open>ADX proxy\<close>

definition calculateADX :: "real list \<Rightarrow> real list \<Rightarrow> real list \<Rightarrow> nat \<Rightarrow> jsnum option" where
  "calculateADX highs lows closes period =
     (if length highs < period * 2 then None
      else
        let tail = slice_last period closes;
            chg = map (\<lambda>i. if i = 0 then 0 else \<bar>tail ! i - tail ! (i - 1)\<bar>) [0..<length tail];
            avgChange = js_div (Fin (sum_list chg)) (Fin (real period))
        in if length closes = 0 \<or> last closes = 0 then None
           else
             let volatility = js_div avgChange (Fin (last closes))
             in Some (js_min (js_max (js_mul volatility (Fin 1000)) (Fin 10)) (Fin 60)))"

subsection \<open>Stochastic RSI\<close>

text \<open>
  Normalisation of the RSI inside its trailing window, \<open>slice(i - period + 1, i + 1)\<close>;
  \<open>flat\<close> is the value pushed when the window's maximum equals its minimum and
  \<open>scale\<close> the factor applied otherwise.  An empty window is skipped (\<open>continue\<close>).
\<close>

definition stochWindow :: "jsnum list \<Rightarrow> nat \<Rightarrow> nat \<Rightarrow> jsnum list" where
  "stochWindow rsiValues period i = take period (drop (i - period + 1) rsiValues)"

definition stochNormalise :: "real \<Rightarrow> real \<Rightarrow> jsnum list \<Rightarrow> nat \<Rightarrow> jsnum list" where
  "stochNormalise flat scale rsiValues period =
     concat (map (\<lambda>i.
        let window = stochWindow rsiValues period i
        in if length window = 0 then []
           else
             let mn = js_min_list window;
                 mx = js_max_list window;
                 current = rsiValues ! i
             in if js_eq mx mn then [Fin flat]
                else [js_mul (js_div (js_sub current mn) (js_sub mx mn)) (Fin scale)])
       [period..<length rsiValues])"

text \<open>\<open>smooth\<close>: moving sums of \<open>p\<close> values, \<open>(sum / p) * 100\<close>.\<close>

definition smooth :: "jsnum list \<Rightarrow> nat \<Rightarrow> jsnum list" where
  "smooth arr p =
     map (\<lambda>i. js_mul (js_div (foldl js_add (Fin 0) (take p (drop (i - p) arr))) (Fin (real p)))
                     (Fin 100))
         [p..<length arr + 1]"

text \<open>\<open>isNaN(x)\<close> on a possibly undefined number: \<open>undefined\<close> converts to \<open>NaN\<close>.\<close>

definition isNaN_opt :: "jsnum option \<Rightarrow> bool" where
  "isNaN_opt x = (case x of None \<Rightarrow> True | Some v \<Rightarrow> v = NaN)"

definition calculateStochRSI :: "real list \<Rightarrow> nat \<Rightarrow> StochRSI option" where
  "calculateStochRSI prices period =
     (let rsiValues = List.map_filter (\<lambda>x. x) (calculateRSIArray prices period)
      in if length rsiValues < period + 5 then None
         else
           let stochRsi = stochNormalise 0.5 1 rsiValues period;
               rawKList = stochNormalise 50 100 rsiValues period;
               kValues = smooth stochRsi 3;
               dValues = smooth (map (\<lambda>v. js_div v (Fin 100)) kValues) 3;
               kLast = last_opt kValues;
               dLast = last_opt dValues
           in if isNaN_opt kLast \<or> isNaN_opt dLast then None
              else Some \<lparr> stochK = the kLast, stochD = the dLast, rawK = last_opt rawKList \<rparr>)"

section \<open>Market structure\<close>

record MarketStructure =
  trend :: Trend
  supports :: "real list"
  resistances :: "real list"

text \<open>Swing points with one bar of lag: index \<open>i - 1\<close> is compared with \<open>i - 2\<close> and \<open>i\<close>.\<close>

definition swingHighs :: "real list \<Rightarrow> real list" where
  "swingHighs prices =
     map (\<lambda>i. prices ! (i - 1))
       (filter (\<lambda>i. prices ! (i - 1) > prices ! (i - 2) \<and> prices ! (i - 1) > prices ! i)
          [2..<length prices])"

definition swingLows :: "real list \<Rightarrow> real list" where
  "swingLows prices =
     map (\<lambda>i. prices ! (i - 1))
       (filter (\<lambda>i. prices ! (i - 1) < prices ! (i - 2) \<and> prices ! (i - 1) < prices ! i)
          [2..<length prices])"

text \<open>
  \<open>clusterLevels\<close>.  The loop runs over the sorted levels from index 1 with the
  state \<open>(clusters, currentClusterSum, currentClusterCount)\<close>; \<open>prev\<close> is
  \<open>levels[i - 1]\<close>.  \<open>levels.sort((a, b) => a - b)\<close> sorts the argument array in
  place, ascending.
\<close>

fun cluster_loop :: "real \<Rightarrow> real list \<Rightarrow> real \<Rightarrow> real \<Rightarrow> nat \<Rightarrow> real list \<Rightarrow> real list" where
  "cluster_loop tolerance clusters prev csum ccount [] = clusters @ [csum / real ccount]"
| "cluster_loop tolerance clusters prev csum ccount (x # xs) =
     (if x \<le> prev * (1 + tolerance)
      then cluster_loop tolerance clusters x (csum + x) (ccount + 1) xs
      else cluster_loop tolerance (clusters @ [csum / real ccount]) x x 1 xs)"

definition clusterLevels :: "real list \<Rightarrow> real \<Rightarrow> real list" where
  "clusterLevels levels tolerance =
     (case sort levels of
        [] \<Rightarrow> []
      | l0 # rest \<Rightarrow> cluster_loop tolerance [] l0 l0 1 rest)"

text \<open>
  \<open>analyzeMarketStructure\<close>.  After the two calls of \<open>clusterLevels\<close> the arrays
  \<open>highs\<close> and \<open>lows\<close> are sorted, since the sort is in place; the trend is
  classified on the sorted arrays.
\<close>

definition analyzeMarketStructure :: "real list \<Rightarrow> MarketStructure" where
  "analyzeMarketStructure prices =
     (if length prices < 10 then \<lparr> trend = RANGING, supports = [], resistances = [] \<rparr>
      else
        let rs = slice_last 3 (clusterLevels (swingHighs prices) 0.02);
            highs = sort (swingHighs prices);
            ss = take 3 (clusterLevels (swingLows prices) 0.02);
            lows = sort (swingLows prices);
            lastPrice = last prices;
            t =
              (if length highs \<ge> 2 \<and> length lows \<ge> 2 then
                 let lastHigh = highs ! (length highs - 1);
                     prevHigh = highs ! (length highs - 2);
                     lastLow = lows ! (length lows - 1);
                     prevLow = lows ! (length lows - 2);
                     t0 = (if lastHigh > prevHigh \<and> lastLow > prevLow then UPTREND
                           else if lastHigh < prevHigh \<and> lastLow < prevLow then DOWNTREND
                           else RANGING);
                     t1 = (if t0 = DOWNTREND \<and> lastPrice > lastHigh then UPTREND else t0)
                 in if t1 = UPTREND \<and> lastPrice < lastLow then DOWNTREND else t1
               else
                 let start = prices ! 0;
                     finish = last prices  \<comment> \<open>\<open>end\<close> in the source\<close>
                 in if finish > start * 1.05 then UPTREND
                    else if finish < start * 0.95 then DOWNTREND
                    else RANGING)
        in \<lparr> trend = t, supports = ss, resistances = rs \<rparr>)"

text \<open>
  The clustering as the specification words it: a level joins the current cluster
  when it is within the tolerance of the running cluster average, which is updated
  incrementally.
\<close>

fun spec_cluster_loop :: "real \<Rightarrow> real list \<Rightarrow> real \<Rightarrow> nat \<Rightarrow> real list \<Rightarrow> real list" where
  "spec_cluster_loop tolerance clusters avg ccount [] = clusters @ [avg]"
| "spec_cluster_loop tolerance clusters avg ccount (x # xs) =
     (if \<bar>x - avg\<bar> \<le> tolerance * \<bar>avg\<bar>
      then spec_cluster_loop tolerance clusters
             ((avg * real ccount + x) / (real ccount + 1)) (ccount + 1) xs
      else spec_cluster_loop tolerance (clusters @ [avg]) x 1 xs)"

definition clusterLevels_spec :: "real list \<Rightarrow> real \<Rightarrow> real list" where
  "clusterLevels_spec levels tolerance =
     (case sort levels of
        [] \<Rightarrow> []
      | l0 # rest \<Rightarrow> spec_cluster_loop tolerance [] l0 1 rest)"

text \<open>
  What the loop of the source computes, stated on the sorted list: the list is cut
  between two neighbours exactly where the higher one exceeds the lower one by
  more than the tolerance, and every piece is replaced by its arithmetic mean.
\<close>

fun chainGroups :: "real \<Rightarrow> real list \<Rightarrow> real list list" where
  "chainGroups tolerance [] = []"
| "chainGroups tolerance [x] = [x] # []"
| "chainGroups tolerance (x # y # ys) =
     (if y \<le> x * (1 + tolerance)
      then (case chainGroups tolerance (y # ys) of
              [] \<Rightarrow> [x] # []
            | g # gs \<Rightarrow> (x # g) # gs)
      else [x] # chainGroups tolerance (y # ys))"

fun chained :: "real \<Rightarrow> real list \<Rightarrow> bool" where
  "chained tolerance (x # y # ys) = (y \<le> x * (1 + tolerance) \<and> chained tolerance (y # ys))"
| "chained tolerance _ = True"

fun separated :: "real \<Rightarrow> real list list \<Rightarrow> bool" where
  "separated tolerance (g # h # gs) =
     (\<not> hd h \<le> last g * (1 + tolerance) \<and> separated tolerance (h # gs))"
| "separated tolerance _ = True"

definition mean :: "real list \<Rightarrow> real" where
  "mean xs = sum_list xs / real (length xs)"

subsection \<open>RSI divergence\<close>

text \<open>\<open>findPeaks\<close> on the price array: five bars of lookback, two of lookahead.\<close>

definition findPeaks :: "real list \<Rightarrow> bool \<Rightarrow> nat list" where
  "findPeaks arr isHigh =
     filter (\<lambda>i.
        let val = arr ! i; left = arr ! (i - 1); left2 = arr ! (i - 2);
            right = arr ! (i + 1); right2 = arr ! (i + 2)
        in if isHigh then val > left \<and> val > left2 \<and> val > right \<and> val > right2
           else val < left \<and> val < left2 \<and> val < right \<and> val < right2)
       [5..<length arr - 2]"

definition detectRSIDivergence :: "real list \<Rightarrow> jsnum option list \<Rightarrow> DivergenceResult" where
  "detectRSIDivergence prices rsiValues =
     (if length prices < 20 \<or> length rsiValues < 20 then \<lparr> dtype = NONE, strength = WEAK \<rparr>
      else
        let priceHighs = findPeaks prices True;
            priceLows = findPeaks prices False
        in if length priceHighs < 2 \<or> length priceLows < 2
           then \<lparr> dtype = NONE, strength = WEAK \<rparr>
           else
             let lastHighIdx = priceHighs ! (length priceHighs - 1);
                 prevHighIdx = priceHighs ! (length priceHighs - 2);
                 bearish =
                   (length prices - lastHighIdx < 15 \<and> prices ! lastHighIdx > prices ! prevHighIdx
                    \<and> (case (nth_opt rsiValues lastHighIdx, nth_opt rsiValues prevHighIdx) of
                          (Some rsi1, Some rsi2) \<Rightarrow> js_lt rsi1 rsi2
                        | _ \<Rightarrow> False));
                 lastLowIdx = priceLows ! (length priceLows - 1);
                 prevLowIdx = priceLows ! (length priceLows - 2);
                 bullish =
                   (length prices - lastLowIdx < 15 \<and> prices ! lastLowIdx < prices ! prevLowIdx
                    \<and> (case (nth_opt rsiValues lastLowIdx, nth_opt rsiValues prevLowIdx) of
                          (Some rsi1, Some rsi2) \<Rightarrow> js_gt rsi1 rsi2
                        | _ \<Rightarrow> False))
             in if bearish then \<lparr> dtype = BEARISH, strength = STRONG \<rparr>
                else if bullish then \<lparr> dtype = BULLISH, strength = STRONG \<rparr>
                else \<lparr> dtype = NONE, strength = WEAK \<rparr>)"

section \<open>Backtest engine\<close>

datatype Strategy = TREND_FOLLOWING | MEAN_REVERSION | SCORE_BASED

datatype Side = LONG | SHORT

record TradeLog =
  entryTime :: string
  exitTime :: string
  side :: Side  \<comment> \<open>field \<open>type\<close> of the source\<close>
  entryPrice :: real
  exitPrice :: real
  pnl :: real
  pnlPercent :: jsnum
  reason :: string

record BacktestResult =
  totalTrades :: nat
  wins :: nat
  losses :: nat
  winRate :: real
  profitFactor :: real
  maxDrawdown :: jsnum
  equityCurve :: "(string \<times> real) list"  \<comment> \<open>pairs \<open>(time, equity)\<close>\<close>
  trades :: "TradeLog list"

text \<open>The open position: \<open>{ type, entry, time, sl, tp }\<close>.\<close>

record Position =
  ptype :: Side
  entry :: real
  ptime :: string
  sl :: real
  tp :: real

text \<open>The variables that the candle loop of \<open>runBacktest\<close> updates.\<close>

record BacktestState =
  st_trades :: "TradeLog list"
  st_equity :: real
  st_maxEquity :: real
  st_maxDrawdown :: jsnum
  st_equityCurve :: "(string \<times> real) list"
  st_position :: "Position option"

text \<open>\<open>a / b * 100\<close>, the percentage of a price move; \<open>b\<close> is the entry price.\<close>

definition percentOf :: "real \<Rightarrow> real \<Rightarrow> jsnum" where
  "percentOf a b = js_mul (js_div (Fin a) (Fin b)) (Fin 100)"

text \<open>
  The check of stops and targets on one candle with intrabar high \<open>H\<close> and low \<open>L\<close>:
  the percentage and the reason when the position closes, \<open>None\<close> when it stays open.
\<close>

definition exitCheck :: "Position \<Rightarrow> real \<Rightarrow> real \<Rightarrow> (jsnum \<times> string) option" where
  "exitCheck pos H L =
     (case ptype pos of
        LONG \<Rightarrow>
          if L \<le> sl pos then Some (percentOf (sl pos - entry pos) (entry pos), ''Stop Loss'')
          else if H \<ge> tp pos then Some (percentOf (tp pos - entry pos) (entry pos), ''Take Profit'')
          else None
      | SHORT \<Rightarrow>
          if H \<ge> sl pos then Some (percentOf (entry pos - sl pos) (entry pos), ''Stop Loss'')
          else if L \<le> tp pos then Some (percentOf (entry pos - tp pos) (entry pos), ''Take Profit'')
          else None)"

text \<open>The block \<open>if (closed) { ... }\<close>: fixed risk of 2% of the equity per trade.\<close>

definition closeTrade ::
    "BacktestState \<Rightarrow> Position \<Rightarrow> ChartPoint \<Rightarrow> jsnum \<Rightarrow> string \<Rightarrow> BacktestState" where
  "closeTrade st pos candle pct why =
     (let riskPerTrade = st_equity st * 0.02;
          riskDistance = \<bar>entry pos - sl pos\<bar>;
          rewardDistance = \<bar>tp pos - entry pos\<bar>;
          rr = rewardDistance / (if riskDistance = 0 then 1 else riskDistance);
          won = js_gt pct (Fin 0);
          equity' = (if won then st_equity st + riskPerTrade * rr
                     else st_equity st - riskPerTrade);
          trade = \<lparr> entryTime = ptime pos, exitTime = time candle, side = ptype pos,
                    entryPrice = entry pos,
                    exitPrice = (if won then tp pos else sl pos),
                    pnl = equity' - (equity' - (if won then riskPerTrade * rr else - riskPerTrade)),
                    pnlPercent = pct, reason = why \<rparr>;
          maxEquity' = (if equity' > st_maxEquity st then equity' else st_maxEquity st);
          dd = js_mul (js_div (Fin (maxEquity' - equity')) (Fin maxEquity')) (Fin 100);
          maxDrawdown' = (if js_gt dd (st_maxDrawdown st) then dd else st_maxDrawdown st)
      in \<lparr> st_trades = st_trades st @ [trade], st_equity = equity',
           st_maxEquity = maxEquity', st_maxDrawdown = maxDrawdown',
           st_equityCurve = st_equityCurve st @ [(time candle, equity')],
           st_position = None \<rparr>)"

text \<open>\<open>rsi && rsi < bound\<close> on a \<open>number | null\<close>.\<close>

definition rsi_below :: "jsnum option \<Rightarrow> real \<Rightarrow> bool" where
  "rsi_below rsi bound = (case rsi of None \<Rightarrow> False | Some r \<Rightarrow> js_truthy r \<and> js_lt r (Fin bound))"

text \<open>
  The entry rules.  The score-based rule calls \<open>calculateTechnicalScore\<close> with eight
  arguments (the seventh is \<open>undefined\<close>, the eighth the weights); that version of the
  function is not among the sources, so the score function is the parameter
  \<open>scoreFn\<close> here.  \<open>calculateADX\<close> is called with empty highs and lows, and
  \<open>detectRSIDivergence\<close> with an empty RSI array.
\<close>

definition openPosition ::
    "(real list \<Rightarrow> jsnum option \<Rightarrow> jsnum option \<Rightarrow> StochRSI option \<Rightarrow> Trend \<Rightarrow> DivergenceResult
        \<Rightarrow> 'w option \<Rightarrow> real)
       \<Rightarrow> Strategy \<Rightarrow> 'w option \<Rightarrow> real list \<Rightarrow> real \<Rightarrow> string \<Rightarrow> Position option" where
  "openPosition scoreFn strategy weights lookbackPrices currentPrice t =
     (case strategy of
        SCORE_BASED \<Rightarrow>
          let rsi = calculateRSI lookbackPrices 14;
              structure = analyzeMarketStructure lookbackPrices;
              adx = calculateADX [] [] lookbackPrices 14;
              stoch = calculateStochRSI lookbackPrices 14;
              divergence = detectRSIDivergence lookbackPrices [];
              score = scoreFn lookbackPrices rsi adx stoch (trend structure) divergence weights
          in if score > 75
             then Some \<lparr> ptype = LONG, entry = currentPrice, ptime = t,
                         sl = currentPrice * 0.98, tp = currentPrice * 1.04 \<rparr>
             else None
      | TREND_FOLLOWING \<Rightarrow>
          let rsi = calculateRSI lookbackPrices 14;
              structure = analyzeMarketStructure lookbackPrices
          in if trend structure = UPTREND \<and> rsi_below rsi 40
             then Some \<lparr> ptype = LONG, entry = currentPrice, ptime = t,
                         sl = currentPrice * 0.98, tp = currentPrice * 1.04 \<rparr>
             else None
      | MEAN_REVERSION \<Rightarrow>
          let rsi = calculateRSI lookbackPrices 14;
              structure = analyzeMarketStructure lookbackPrices
          in if trend structure = RANGING \<and> rsi_below rsi 30
             then Some \<lparr> ptype = LONG, entry = currentPrice, ptime = t,
                         sl = currentPrice * 0.97, tp = currentPrice * 1.03 \<rparr>
             else None)"

text \<open>Intrabar high and low of a candle; the close stands in for a missing value.\<close>

definition candleHigh :: "ChartPoint \<Rightarrow> real" where
  "candleHigh candle = (case high candle of Some h \<Rightarrow> h | None \<Rightarrow> price candle)"

definition candleLow :: "ChartPoint \<Rightarrow> real" where
  "candleLow candle = (case low candle of Some l \<Rightarrow> l | None \<Rightarrow> price candle)"

text \<open>
  One iteration of the candle loop at index \<open>i\<close>.  With a position open the exits
  are checked; a position that stays open blocks the entry rules, and after a close the
  loop continues with the next candle.
\<close>

definition backtestStep ::
    "(real list \<Rightarrow> jsnum option \<Rightarrow> jsnum option \<Rightarrow> StochRSI option \<Rightarrow> Trend \<Rightarrow> DivergenceResult
        \<Rightarrow> 'w option \<Rightarrow> real)
       \<Rightarrow> Strategy \<Rightarrow> 'w option \<Rightarrow> ChartPoint list \<Rightarrow> BacktestState \<Rightarrow> nat \<Rightarrow> BacktestState" where
  "backtestStep scoreFn strategy weights history st i =
     (let candle = history ! i;
          currentPrice = price candle
      in case st_position st of
           Some pos \<Rightarrow>
             (case exitCheck pos (candleHigh candle) (candleLow candle) of
                Some (pct, why) \<Rightarrow> closeTrade st pos candle pct why
              | None \<Rightarrow> st)
         | None \<Rightarrow>
             st \<lparr> st_position :=
                    openPosition scoreFn strategy weights
                      (take (i + 1) (map price history)) currentPrice (time candle) \<rparr>)"

definition grossProfit :: "TradeLog list \<Rightarrow> real" where
  "grossProfit ts = foldl (\<lambda>a b. a + pnl b) 0 (filter (\<lambda>t. pnl t > 0) ts)"

definition grossLoss :: "TradeLog list \<Rightarrow> real" where
  "grossLoss ts = \<bar>foldl (\<lambda>a b. a + pnl b) 0 (filter (\<lambda>t. pnl t < 0) ts)\<bar>"

definition runBacktest ::
    "(real list \<Rightarrow> jsnum option \<Rightarrow> jsnum option \<Rightarrow> StochRSI option \<Rightarrow> Trend \<Rightarrow> DivergenceResult
        \<Rightarrow> 'w option \<Rightarrow> real)
       \<Rightarrow> Strategy \<Rightarrow> ChartPoint list \<Rightarrow> real \<Rightarrow> 'w option \<Rightarrow> BacktestResult" where
  "runBacktest scoreFn strategy history initialCapital weights =
     (if length history < 50 then
        \<lparr> totalTrades = 0, wins = 0, losses = 0, winRate = 0, profitFactor = 0,
          maxDrawdown = Fin 0, equityCurve = [], trades = [] \<rparr>
      else
        let st0 = \<lparr> st_trades = [], st_equity = initialCapital,
                    st_maxEquity = initialCapital, st_maxDrawdown = Fin 0,
                    st_equityCurve = [(time (history ! 0), initialCapital)],
                    st_position = None \<rparr>;
            final = foldl (backtestStep scoreFn strategy weights history) st0
                      [50..<length history];
            ts = st_trades final;
            nWins = length (filter (\<lambda>t. pnl t > 0) ts);
            nLosses = length (filter (\<lambda>t. pnl t \<le> 0) ts);
            nTrades = length ts;
            gp = grossProfit ts;
            gl = grossLoss ts
        in \<lparr> totalTrades = nTrades, wins = nWins, losses = nLosses,
             winRate = (if nTrades > 0 then (real nWins / real nTrades) * 100 else 0),
             profitFactor = (if gl = 0 then gp else gp / gl),
             maxDrawdown = st_maxDrawdown final,
             equityCurve = st_equityCurve final,
             trades = ts \<rparr>)"

section \<open>Walk-forward validation\<close>

record PeriodResult =
  windowIndex :: nat
  train :: BacktestResult
  test :: BacktestResult

record WalkForwardResult =
  periodResults :: "PeriodResult list"
  overallStability :: real
  averageWinRate :: real

text \<open>\<open>curve[curve.length - 1]?.equity || 1000\<close>: 1000 for an empty curve and for equity 0.\<close>

definition lastEquityOr1000 :: "(string \<times> real) list \<Rightarrow> real" where
  "lastEquityOr1000 curve =
     (case last_opt curve of
        None \<Rightarrow> 1000
      | Some (t, e) \<Rightarrow> if e = 0 then 1000 else e)"

text \<open>
  The sliding-window loop, \<open>for (let i = 0; i < history.length - (trainSize + testSize);
  i += step)\<close> with \<open>step = testSize\<close>.  With \<open>testSize = 0\<close> the index never advances and
  the source does not return; the loop is therefore a partial function, \<open>None\<close> meaning
  that it does not return.  \<open>runBacktest\<close> on the train window takes the default
  capital 1000 and no weights.
\<close>

partial_function (option) wf_loop ::
    "(real list \<Rightarrow> jsnum option \<Rightarrow> jsnum option \<Rightarrow> StochRSI option \<Rightarrow> Trend \<Rightarrow> DivergenceResult
        \<Rightarrow> 'w option \<Rightarrow> real)
       \<Rightarrow> Strategy \<Rightarrow> ChartPoint list \<Rightarrow> nat \<Rightarrow> nat \<Rightarrow> nat \<Rightarrow> PeriodResult list
       \<Rightarrow> PeriodResult list option" where
  "wf_loop scoreFn strategy history trainSize testSize i results =
     (if int i < int (length history) - int (trainSize + testSize) then
        (let trainWindow = take trainSize (drop i history);
             testWindow = take testSize (drop (i + trainSize) history)
         in if length testWindow < testSize then Some results
            else
              let trainResult = runBacktest scoreFn strategy trainWindow 1000 None;
                  testResult = runBacktest scoreFn strategy testWindow
                                 (lastEquityOr1000 (equityCurve trainResult)) None
              in wf_loop scoreFn strategy history trainSize testSize (i + testSize)
                   (results @ [\<lparr> windowIndex = i, train = trainResult, test = testResult \<rparr>]))
      else Some results)"

text \<open>Stability of one window: \<open>Math.max(0, 100 - Math.abs(trainWR - testWR))\<close>.\<close>

definition periodStability :: "PeriodResult \<Rightarrow> real" where
  "periodStability r = max 0 (100 - \<bar>winRate (train r) - winRate (test r)\<bar>)"

definition runWalkForwardAnalysis ::
    "(real list \<Rightarrow> jsnum option \<Rightarrow> jsnum option \<Rightarrow> StochRSI option \<Rightarrow> Trend \<Rightarrow> DivergenceResult
        \<Rightarrow> 'w option \<Rightarrow> real)
       \<Rightarrow> Strategy \<Rightarrow> ChartPoint list \<Rightarrow> nat \<Rightarrow> nat \<Rightarrow> WalkForwardResult option" where
  "runWalkForwardAnalysis scoreFn strategy history trainSize testSize =
     (case wf_loop scoreFn strategy history trainSize testSize 0 [] of
        None \<Rightarrow> None
      | Some results \<Rightarrow>
          let stabilitySum = foldl (\<lambda>a r. a + periodStability r) 0 results;
              totalWinRate = foldl (\<lambda>a r. a + winRate (test r)) 0 results
          in Some \<lparr> periodResults = results,
                    overallStability =
                      (if length results > 0 then stabilitySum / real (length results) else 0),
                    averageWinRate =
                      (if length results > 0 then totalWinRate / real (length results) else 0) \<rparr>)"

section \<open>Hybrid regime and opportunity enricher\<close>

datatype MarketRegime = R_TRENDING | R_RANGING | R_VOLATILE | R_ACCUMULATION | R_DISTRIBUTION

datatype MoveClassification = REAL_MOMENTUM | LIQUIDITY_GRAB | STOP_HUNT | NEWS_EVENT | UNKNOWN

datatype RiskLevel = RISK_LOW | RISK_MEDIUM | RISK_HIGH

datatype ExecutionBias = B_BREAKOUT | B_PULLBACK | B_MEAN_REVERSION | B_ACCUMULATION

datatype SignalType =
    S_ACCUMULATION | S_BREAKOUT | S_VOLUME_SPIKE | S_DUMP | S_SCALPING_PUMP
  | S_TREND_CONTINUATION | S_UNDERVALUED | S_FALSE_BREAKOUT_RISK

datatype BtcTrend = UP | DOWN | FLAT

text \<open>The three tags of the derivatives overlay (string literals in the source).\<close>

datatype InstitutionalTag = ShortSqueeze | CrowdedLongs | SmartMoneyAccumulation

record FuturesData =
  openInterest :: real
  longShortRatio :: real
  fundingRate :: real

text \<open>The fields of \<open>ScannerSignal\<close> that the enricher reads.\<close>

record ScannerSignal =
  signalType :: SignalType
  probability :: real
  futuresData :: "FuturesData option"

text \<open>
  \<open>failureProbability\<close> is the string \<open>Math.round(failProb)\<close> followed by a percent sign;
  the record keeps the rounded number.
\<close>

record HybridAnalysisResult =
  marketRegime :: MarketRegime
  moveClassification :: MoveClassification
  opportunityScore :: real
  riskLevel :: RiskLevel
  executionBias :: ExecutionBias
  failureProbability :: int
  institutionalTag :: "InstitutionalTag option"

text \<open>
  \<open>xs[i]\<close> of a number array inside arithmetic: \<open>undefined\<close>, out of range, turns
  the result into \<open>NaN\<close>.
\<close>

definition num_at :: "real list \<Rightarrow> nat \<Rightarrow> jsnum" where
  "num_at xs i = (if i < length xs then Fin (xs ! i) else NaN)"

definition calculateATR :: "real list \<Rightarrow> real list \<Rightarrow> real list \<Rightarrow> nat \<Rightarrow> jsnum option" where
  "calculateATR highs lows closes period =
     (if length highs < period + 1 then None
      else
        let tr = map (\<lambda>i.
                   let hl = js_sub (num_at highs i) (num_at lows i);
                       hc = js_abs (js_sub (num_at highs i) (num_at closes (i - 1)));
                       lc = js_abs (js_sub (num_at lows i) (num_at closes (i - 1)))
                   in js_max (js_max hl hc) lc)
                 [1..<length highs]
        in if length tr < period then None
           else Some (js_div (foldl js_add (Fin 0) (slice_last period tr)) (Fin (real period))))"

text \<open>\<open>getLast\<close>: the last entry that is a number, 0 without one.\<close>

definition getLast :: "jsnum list \<Rightarrow> jsnum" where
  "getLast arr = (case filter (\<lambda>x. x \<noteq> NaN) (rev arr) of [] \<Rightarrow> Fin 0 | x # _ \<Rightarrow> x)"

text \<open>
  \<open>detectMarketRegime\<close> and \<open>classifyMove\<close> are private and called by \<open>enrichSignal\<close>
  on histories of at least 50 candles only, so that the last candle exists.  A
  missing volume is \<open>undefined\<close> and makes a sum \<open>NaN\<close>.  Values that the source
  computes and never reads (\<open>adx\<close>, \<open>isWickRejection\<close>) are left out.
\<close>

definition detectMarketRegime :: "ChartPoint list \<Rightarrow> real list \<Rightarrow> MarketRegime" where
  "detectMarketRegime history prices =
     (let highs = map (\<lambda>h. or_default (high h) (price h)) history;
          lows = map (\<lambda>l. or_default (low l) (price l)) history;
          ema20 = getLast (calculateEMA prices 20);
          ema50 = getLast (calculateEMA prices 50);
          current = last prices;
          atr = calculateATR highs lows prices 14;
          atrPct = (case atr of
                      None \<Rightarrow> Fin 0
                    | Some a \<Rightarrow>
                        if js_truthy a \<and> current \<noteq> 0
                        then js_mul (js_div a (Fin current)) (Fin 100)
                        else Fin 0)
      in if js_gt atrPct (Fin 2.5) then R_VOLATILE
         else
           let isUptrend = (js_gt (Fin current) ema20 \<and> js_gt ema20 ema50);
               isDowntrend = (js_lt (Fin current) ema20 \<and> js_lt ema20 ema50)
           in if isUptrend \<or> isDowntrend then R_TRENDING
              else
                let period50 = map Fin (slice_last 50 prices);
                    min50 = js_min_list period50;
                    max50 = js_max_list period50;
                    rangePos = js_div (js_sub (Fin current) min50) (js_sub max50 min50)
                in if js_lt rangePos (Fin 0.3) then R_ACCUMULATION
                   else if js_gt rangePos (Fin 0.7) then R_DISTRIBUTION
                   else R_RANGING)"

definition volume_num :: "ChartPoint \<Rightarrow> jsnum" where
  "volume_num c = (case volume c of None \<Rightarrow> NaN | Some v \<Rightarrow> Fin v)"

definition classifyMove :: "ScannerSignal \<Rightarrow> ChartPoint list \<Rightarrow> MarketRegime \<Rightarrow> MoveClassification" where
  "classifyMove sig history regime =
     (let lastCandle = last history;
          prevPrice = (if 2 \<le> length history then price (history ! (length history - 2))
                       else price lastCandle);
          avgVol = js_div (foldl (\<lambda>a b. js_add a (volume_num b)) (Fin 0) (slice_last 20 history))
                          (Fin 20);
          isVolumeSupported = js_gt (volume_num lastCandle) (js_mul avgVol (Fin 1.5))
      in if (signalType sig = S_BREAKOUT \<or> signalType sig = S_SCALPING_PUMP) \<and> \<not> isVolumeSupported
         then LIQUIDITY_GRAB
         else if isVolumeSupported \<and> (regime = R_TRENDING \<or> regime = R_ACCUMULATION)
         then REAL_MOMENTUM
         else
           let movePct = js_mul (js_abs (js_div (Fin (price lastCandle - prevPrice)) (Fin prevPrice)))
                                (Fin 100)
           in if js_gt movePct (Fin 2.0) \<and> regime = R_VOLATILE then NEWS_EVENT
              else if regime = R_RANGING then UNKNOWN
              else REAL_MOMENTUM)"

definition calculateOpportunityScore ::
    "ScannerSignal \<Rightarrow> MarketRegime \<Rightarrow> MoveClassification \<Rightarrow> ChartPoint list \<Rightarrow> BtcTrend option
       \<Rightarrow> real" where
  "calculateOpportunityScore sig regime classification history btcContext =
     (let score0 = 50 + (probability sig - 50);
          score1 = (if signalType sig = S_TREND_CONTINUATION \<and> regime = R_TRENDING
                    then score0 + 10 else score0);
          score2 = (if signalType sig = S_BREAKOUT \<and> regime = R_ACCUMULATION
                    then score1 + 15 else score1);
          score3 = (if signalType sig = S_SCALPING_PUMP \<and> regime = R_VOLATILE
                    then score2 - 10 else score2);
          score4 = (if signalType sig = S_SCALPING_PUMP \<and> regime = R_TRENDING
                    then score3 + 10 else score3);
          score5 = (case classification of
                      REAL_MOMENTUM \<Rightarrow> score4 + 15
                    | LIQUIDITY_GRAB \<Rightarrow> score4 - 20
                    | STOP_HUNT \<Rightarrow> score4 - 15
                    | NEWS_EVENT \<Rightarrow> score4 - 5
                    | UNKNOWN \<Rightarrow> score4 - 5);
          score6 = (case btcContext of
                      None \<Rightarrow> score5
                    | Some btcTrend \<Rightarrow>
                        let signalBias = (if signalType sig = S_DUMP then DOWN else UP)
                        in if signalBias = btcTrend then score5 + 5 else score5 - 5);
          rsi = calculateRSI (map price history) 14;
          score7 = (case rsi of
                      None \<Rightarrow> score6
                    | Some r \<Rightarrow>
                        if js_truthy r then
                          let s = (if signalType sig \<noteq> S_DUMP \<and> js_gt r (Fin 75)
                                   then score6 - 10 else score6)
                          in if signalType sig \<noteq> S_DUMP \<and> js_lt r (Fin 40) \<and> regime = R_TRENDING
                             then s + 5 else s
                        else score6)
      in min 99 (max 1 score7))"

definition assessRisk :: "real \<Rightarrow> MarketRegime \<Rightarrow> MoveClassification \<Rightarrow> RiskLevel \<times> int" where
  "assessRisk score regime classification =
     (let risk0 = (if score > 80 then RISK_LOW else if score < 50 then RISK_HIGH else RISK_MEDIUM);
          risk1 = (if regime = R_VOLATILE then RISK_HIGH else risk0);
          risk2 = (if classification = LIQUIDITY_GRAB then RISK_HIGH else risk1);
          failProb0 = 100 - score;
          failProb = (if regime = R_RANGING then failProb0 + 5 else failProb0)
      in (risk2, \<lfloor>failProb + 1 / 2\<rfloor>))"

definition determineExecutionBias :: "SignalType \<Rightarrow> MarketRegime \<Rightarrow> ExecutionBias" where
  "determineExecutionBias st regime =
     (if st = S_SCALPING_PUMP then B_BREAKOUT
      else if st = S_DUMP then B_BREAKOUT
      else if regime = R_TRENDING then B_PULLBACK
      else if regime = R_ACCUMULATION then B_ACCUMULATION
      else if regime = R_RANGING then B_MEAN_REVERSION
      else B_BREAKOUT)"

text \<open>
  Step 4 of \<open>enrichSignal\<close>, the derivatives overlay: the tag, the adjusted score and
  the forced risk (\<open>None\<close> is \<open>undefined\<close>).  Rule C is an \<open>if\<close> of its own after
  the chain of rules A and B.
\<close>

definition derivativesOverlay ::
    "ScannerSignal \<Rightarrow> real \<Rightarrow> InstitutionalTag option \<times> real \<times> RiskLevel option" where
  "derivativesOverlay sig score =
     (case futuresData sig of
        None \<Rightarrow> (None, score, None)
      | Some fd \<Rightarrow>
          let ab = (if longShortRatio fd < 0.6 \<and> signalType sig \<noteq> S_DUMP
                    then (Some ShortSqueeze, score + 20, Some RISK_LOW)
                    else if longShortRatio fd > 3.0 \<and> signalType sig \<noteq> S_DUMP
                    then (Some CrowdedLongs, score - 30, Some RISK_HIGH)
                    else (None, score, None))
          in if signalType sig = S_ACCUMULATION \<and> openInterest fd > 0 \<and> longShortRatio fd < 0.8
             then (Some SmartMoneyAccumulation, fst (snd ab) + 15, snd (snd ab))
             else ab)"

definition enrichSignal ::
    "ScannerSignal \<Rightarrow> ChartPoint list \<Rightarrow> BtcTrend option \<Rightarrow> HybridAnalysisResult" where
  "enrichSignal baseSignal history btcContext =
     (if length history < 50 then
        \<lparr> marketRegime = R_RANGING, moveClassification = UNKNOWN,
          opportunityScore = probability baseSignal, riskLevel = RISK_MEDIUM,
          executionBias = B_MEAN_REVERSION, failureProbability = 50,
          institutionalTag = None \<rparr>
      else
        let prices = map price history;
            regime = detectMarketRegime history prices;
            classification = classifyMove baseSignal history regime;
            score = calculateOpportunityScore baseSignal regime classification history btcContext;
            overlay = derivativesOverlay baseSignal score;
            adjustedScore = fst (snd overlay);
            adjustedRisk = snd (snd overlay);
            rf = assessRisk adjustedScore regime classification;
            bias = determineExecutionBias (signalType baseSignal) regime;
            finalRisk = (case adjustedRisk of Some r \<Rightarrow> r | None \<Rightarrow> fst rf)
        in \<lparr> marketRegime = regime, moveClassification = classification,
             opportunityScore = min 99 adjustedScore, riskLevel = finalRisk,
             executionBias = bias, failureProbability = snd rf,
             institutionalTag = fst overlay \<rparr>)"

section \<open>Volume profile\<close>

text \<open>
  \<open>poc\<close>, \<open>vacLow\<close> and \<open>vacHigh\<close> are entries of \<open>binKeys\<close>; an index outside the array
  gives \<open>undefined\<close>, here \<open>None\<close>.
\<close>

record VolumeProfile =
  poc :: "jsnum option"
  vacLow :: "jsnum option"
  vacHigh :: "jsnum option"
  profile :: "(jsnum \<times> jsnum) list"  \<comment> \<open>pairs \<open>(price, volume)\<close>\<close>

text \<open>\<open>Math.min(...xs)\<close> and \<open>Math.max(...xs)\<close> on a non-empty array of prices.\<close>

definition list_min :: "real list \<Rightarrow> real" where
  "list_min xs = foldl min (hd xs) (tl xs)"

definition list_max :: "real list \<Rightarrow> real" where
  "list_max xs = foldl max (hd xs) (tl xs)"

text \<open>
  The bin of a price: \<open>Math.floor((price - min) / step)\<close>, set to \<open>bins - 1\<close> when it
  is \<open>>= bins\<close>.  \<open>None\<close> is an index that is not a number (\<open>NaN\<close> on a zero step,
  \<open>-Infinity\<close>).
\<close>

definition binIndexOf :: "jsnum \<Rightarrow> nat \<Rightarrow> int option" where
  "binIndexOf q bins =
     (case q of
        Fin x \<Rightarrow> Some (if \<lfloor>x\<rfloor> \<ge> int bins then int bins - 1 else \<lfloor>x\<rfloor>)
      | PosInf \<Rightarrow> Some (int bins - 1)
      | NegInf \<Rightarrow> None
      | NaN \<Rightarrow> None)"

text \<open>
  The loop that fills the bins.  \<open>profileBins\<close> is an object with the keys
  \<open>0, \<dots>, bins - 1\<close>; the list holds their values.  An assignment to any other key
  creates a property that is never read, and leaves the list as it is.
\<close>

definition fillBins :: "real list \<Rightarrow> real list \<Rightarrow> real \<Rightarrow> jsnum \<Rightarrow> nat \<Rightarrow> jsnum list" where
  "fillBins prices volumes mn step bins =
     foldl (\<lambda>profileBins i.
              let vol = num_at volumes i
              in case binIndexOf (js_div (Fin (prices ! i - mn)) step) bins of
                   None \<Rightarrow> profileBins
                 | Some b \<Rightarrow>
                     if 0 \<le> b \<and> b < int (length profileBins)
                     then profileBins [nat b := js_add (profileBins ! nat b) vol]
                     else profileBins)
           (replicate bins (Fin 0)) [0..<length prices]"

text \<open>The scan for the point of control: \<open>(maxVol, pocIndex, totalVolume)\<close>.\<close>

definition pocScan :: "jsnum list \<Rightarrow> nat \<Rightarrow> jsnum \<times> nat \<times> jsnum" where
  "pocScan profileBins bins =
     foldl (\<lambda>acc i.
              case acc of (maxVol, pocIndex, totalVolume) \<Rightarrow>
                let vol = profileBins ! i
                in if js_gt vol maxVol then (vol, i, js_add totalVolume vol)
                   else (maxVol, pocIndex, js_add totalVolume vol))
           (Fin 0, 0, Fin 0) [0..<bins]"

text \<open>
  The \<open>while\<close> loop that widens the value area.  The source may not leave it, so
  the loop is a partial function: \<open>None\<close> means that it does not return.  \<open>lowIdx\<close> is
  an integer, since the loop decrements it without a test.
\<close>

partial_function (option) valueAreaLoop ::
    "nat \<Rightarrow> jsnum list \<Rightarrow> jsnum \<Rightarrow> jsnum \<Rightarrow> int \<Rightarrow> int \<Rightarrow> (int \<times> int) option" where
  "valueAreaLoop bins profileBins targetVol currentVol lowIdx highIdx =
     (if js_lt currentVol targetVol \<and> (lowIdx > 0 \<or> highIdx < int bins - 1) then
        (let lowerVol = (if lowIdx > 0 then profileBins ! nat (lowIdx - 1) else Fin 0);
             upperVol = (if highIdx < int bins - 1 then profileBins ! nat (highIdx + 1) else Fin 0)
         in if js_gt upperVol lowerVol
            then valueAreaLoop bins profileBins targetVol (js_add currentVol upperVol)
                   lowIdx (highIdx + 1)
            else valueAreaLoop bins profileBins targetVol (js_add currentVol lowerVol)
                   (lowIdx - 1) highIdx)
      else Some (lowIdx, highIdx))"

definition key_at :: "jsnum list \<Rightarrow> int \<Rightarrow> jsnum option" where
  "key_at binKeys idx =
     (if 0 \<le> idx \<and> idx < int (length binKeys) then Some (binKeys ! nat idx) else None)"

definition calculateVolumeProfile :: "real list \<Rightarrow> real list \<Rightarrow> nat \<Rightarrow> VolumeProfile option" where
  "calculateVolumeProfile prices volumes bins =
     (if length prices = 0 \<or> length volumes = 0 then
        Some \<lparr> poc = Some (Fin 0), vacLow = Some (Fin 0), vacHigh = Some (Fin 0), profile = [] \<rparr>
      else
        let mn = list_min prices;
            mx = list_max prices;
            range = mx - mn;
            step = js_div (Fin range) (Fin (real bins));
            binKeys = map (\<lambda>i. js_add (Fin mn) (js_mul (Fin (real i)) step)) [0..<bins];
            profileBins = fillBins prices volumes mn step bins;
            scan = pocScan profileBins bins;
            maxVol = fst scan;
            pocIndex = fst (snd scan);
            totalVolume = snd (snd scan);
            resultProfile = map (\<lambda>i. (binKeys ! i, profileBins ! i)) [0..<bins];
            targetVol = js_mul totalVolume (Fin 0.7)
        in case valueAreaLoop bins profileBins targetVol maxVol (int pocIndex) (int pocIndex) of
             None \<Rightarrow> None
           | Some (lowIdx, highIdx) \<Rightarrow>
               Some \<lparr> poc = key_at binKeys (int pocIndex), vacLow = key_at binKeys lowIdx,
                      vacHigh = key_at binKeys highIdx, profile = resultProfile \<rparr>)"

section \<open>Properties\<close>

subsection \<open>Technical score\<close>

lemma clamp_0_100: "0 \<le> max 0 (min 100 (x::real)) \<and> max 0 (min 100 x) \<le> 100"
  by simp

text \<open>
  C4. For every combination of prices, RSI, ADX, StochRSI, trend and divergence
  (non-finite numbers included) \<open>calculateTechnicalScore\<close> returns a value in
  \<open>[0, 100]\<close>; it starts from the baseline 50, which is the result when no factor
  applies.
\<close>

theorem calculateTechnicalScore_range:
  "0 \<le> calculateTechnicalScore prices rsi adx stochRsi tr divergence
   \<and> calculateTechnicalScore prices rsi adx stochRsi tr divergence \<le> 100
   \<and> calculateTechnicalScore [] None None None RANGING \<lparr> dtype = NONE, strength = s \<rparr> = 50"
proof -
  have "0 \<le> calculateTechnicalScore prices rsi adx stochRsi tr divergence
        \<and> calculateTechnicalScore prices rsi adx stochRsi tr divergence \<le> 100"
    unfolding calculateTechnicalScore_def Let_def by (rule clamp_0_100)
  moreover have "calculateTechnicalScore [] None None None RANGING
                   \<lparr> dtype = NONE, strength = s \<rparr> = 50"
    by (simp add: calculateTechnicalScore_def calculateEMA_def last_opt_def)
  ultimately show ?thesis by simp
qed

subsection \<open>Relative strength index\<close>












subsection \<open>Clustering of swing levels\<close>

lemma chainGroups_Cons:
  "\<exists>g gs. chainGroups tol (x # xs) = (x # g) # gs"
proof (induction xs arbitrary: x)
  case Nil
  show ?case by simp
next
  case (Cons y ys)
  from Cons [of y] obtain g gs where "chainGroups tol (y # ys) = (y # g) # gs" by blast
  then show ?case by simp
qed

lemma cluster_loop_chain:
  "0 < ccount \<Longrightarrow>
   cluster_loop tol clusters prev csum ccount xs =
     (case chainGroups tol (prev # xs) of
        [] \<Rightarrow> []
      | g # gs \<Rightarrow> clusters @ ((csum + sum_list (tl g)) / real (ccount + length (tl g))) # map mean gs)"
proof (induction xs arbitrary: clusters prev csum ccount)
  case Nil
  show ?case by simp
next
  case (Cons x xs)
  obtain g gs where g: "chainGroups tol (x # xs) = (x # g) # gs"
    using chainGroups_Cons by blast
  show ?case
  proof (cases "x \<le> prev * (1 + tol)")
    case True
    then show ?thesis using Cons.IH [of "ccount + 1" clusters x "csum + x"] g
      by (simp add: add.assoc)
  next
    case False
    then show ?thesis using Cons.IH [of 1 "clusters @ [csum / real ccount]" x x] g
      by (simp add: mean_def)
  qed
qed

lemma clusterLevels_mean:
  "clusterLevels levels tol = map mean (chainGroups tol (sort levels))"
proof (cases "sort levels")
  case Nil
  then show ?thesis by (simp add: clusterLevels_def)
next
  case (Cons l0 rest)
  obtain g gs where g: "chainGroups tol (l0 # rest) = (l0 # g) # gs"
    using chainGroups_Cons by blast
  show ?thesis using Cons g
    by (simp add: clusterLevels_def cluster_loop_chain mean_def)
qed

lemma concat_chainGroups: "concat (chainGroups tol xs) = xs"
proof (induction tol xs rule: chainGroups.induct)
  case (3 tol x y ys)
  obtain g gs where g: "chainGroups tol (y # ys) = (y # g) # gs"
    using chainGroups_Cons by blast
  with 3 show ?case by (cases "y \<le> x * (1 + tol)") auto
qed simp_all

lemma chainGroups_chained:
  "g \<in> set (chainGroups tol xs) \<Longrightarrow> g \<noteq> [] \<and> chained tol g"
proof (induction tol xs arbitrary: g rule: chainGroups.induct)
  case (3 tol x y ys)
  obtain h hs where h: "chainGroups tol (y # ys) = (y # h) # hs"
    using chainGroups_Cons by blast
  show ?case
  proof (cases "y \<le> x * (1 + tol)")
    case True
    with 3 h show ?thesis by auto
  next
    case False
    with 3 h show ?thesis by auto
  qed
qed simp_all

lemma chainGroups_separated: "separated tol (chainGroups tol xs)"
proof (induction tol xs rule: chainGroups.induct)
  case (3 tol x y ys)
  obtain h hs where h: "chainGroups tol (y # ys) = (y # h) # hs"
    using chainGroups_Cons by blast
  show ?case
  proof (cases "y \<le> x * (1 + tol)")
    case True
    with 3 h show ?thesis by (cases hs) auto
  next
    case False
    with 3 h show ?thesis by auto
  qed
qed simp_all


text \<open>
  C9, as stated, fails: the source compares a level with the previous level of
  the sorted list, not with the running average of the cluster.  On the levels
  100, 101.5, 103 the source builds one cluster (each level is within 2% of its
  predecessor), whereas 103 is more than 2% above the running average 100.75.
\<close>

theorem clusterLevels_running_average_counterexample:
  "clusterLevels [100, 101.5, 103] 0.02 = [101.5]
   \<and> clusterLevels_spec [100, 101.5, 103] 0.02 = [100.75, 103]
   \<and> resistances (analyzeMarketStructure [90, 100, 90, 101.5, 90, 103, 90, 90, 90, 90]) = [101.5]"
  by (simp add: clusterLevels_def clusterLevels_spec_def analyzeMarketStructure_def
        swingHighs_def swingLows_def slice_last_def Let_def upt_rec)

text \<open>
  C9, amended.  For every list of swing levels, clustering sorts the levels
  ascending and merges a level into the current cluster exactly when it is at most
  2% (the tolerance) above the previous level of the sorted list: the sorted list is
  cut into pieces whose neighbours are all within the tolerance, two consecutive
  pieces being further apart, and every cluster is the arithmetic mean of its piece.
  \<open>analyzeMarketStructure\<close> retains the last 3 resistance clusters and the first 3
  support clusters.
\<close>

theorem clusterLevels_chain:
  "clusterLevels levels tol = map mean (chainGroups tol (sort levels))
   \<and> concat (chainGroups tol (sort levels)) = sort levels
   \<and> (\<forall>g \<in> set (chainGroups tol (sort levels)). g \<noteq> [] \<and> chained tol g)
   \<and> separated tol (chainGroups tol (sort levels))
   \<and> (10 \<le> length prices \<longrightarrow>
        resistances (analyzeMarketStructure prices) =
          drop (length (clusterLevels (swingHighs prices) 0.02) - 3)
               (clusterLevels (swingHighs prices) 0.02)
        \<and> supports (analyzeMarketStructure prices) =
          take 3 (clusterLevels (swingLows prices) 0.02))"
proof -
  have "10 \<le> length prices \<longrightarrow>
        resistances (analyzeMarketStructure prices) =
          drop (length (clusterLevels (swingHighs prices) 0.02) - 3)
               (clusterLevels (swingHighs prices) 0.02)
        \<and> supports (analyzeMarketStructure prices) =
          take 3 (clusterLevels (swingLows prices) 0.02)"
    by (simp add: analyzeMarketStructure_def slice_last_def Let_def)
  then show ?thesis
    using clusterLevels_mean [of levels tol] concat_chainGroups [of tol "sort levels"]
      chainGroups_chained [of _ tol "sort levels"] chainGroups_separated [of tol "sort levels"]
    by blast
qed

theorem clusterLevels_chain_witness:
  "clusterLevels [103, 100, 101.5] 0.02 = map mean (chainGroups 0.02 (sort [103, 100, 101.5]))
   \<and> 10 \<le> length [90, 100, 90, 101.5, 90, 103, 90, 90, 90, 90 :: real]
   \<and> supports (analyzeMarketStructure [90, 100, 90, 101.5, 90, 103, 90, 90, 90, 90]) =
       take 3 (clusterLevels (swingLows [90, 100, 90, 101.5, 90, 103, 90, 90, 90, 90]) 0.02)"
  using clusterLevels_chain [of "[103, 100, 101.5]" "0.02"
          "[90, 100, 90, 101.5, 90, 103, 90, 90, 90, 90]"]
  by simp

subsection \<open>Backtest: exits\<close>

lemma percentOf_not_gain:
  assumes "0 \<le> b" "a \<le> 0"
  shows "\<not> js_gt (percentOf a b) (Fin 0)"
proof (cases "b = 0")
  case True
  then show ?thesis using assms
    by (simp add: percentOf_def js_gt_def inf_of_sign_def)
next
  case False
  with assms have "0 < b" by simp
  with assms have "a / b \<le> 0" by (simp add: divide_le_0_iff)
  then have "a / b * 100 \<le> 0" by (rule mult_nonpos_nonneg) simp
  then have "\<not> 0 < a / b * 100" by linarith
  moreover have "percentOf a b = Fin (a / b * 100)"
    using False by (simp add: percentOf_def)
  ultimately show ?thesis by (simp add: js_gt_def)
qed

lemma closeTrade_loss:
  assumes "\<not> js_gt pct (Fin 0)"
  shows "st_position (closeTrade st pos c pct why) = None
       \<and> st_trades (closeTrade st pos c pct why) = st_trades st @ [last (st_trades (closeTrade st pos c pct why))]
       \<and> reason (last (st_trades (closeTrade st pos c pct why))) = why
       \<and> pnlPercent (last (st_trades (closeTrade st pos c pct why))) = pct
       \<and> exitPrice (last (st_trades (closeTrade st pos c pct why))) = sl pos
       \<and> pnl (last (st_trades (closeTrade st pos c pct why))) = - (st_equity st * 0.02)
       \<and> st_equity (closeTrade st pos c pct why) = st_equity st - st_equity st * 0.02"
  using assms by (simp add: closeTrade_def Let_def)

lemma closeTrade_any:
  shows "st_position (closeTrade st pos c pct why) = None
       \<and> st_trades (closeTrade st pos c pct why) = st_trades st @ [last (st_trades (closeTrade st pos c pct why))]
       \<and> reason (last (st_trades (closeTrade st pos c pct why))) = why
       \<and> pnlPercent (last (st_trades (closeTrade st pos c pct why))) = pct"
  by (simp add: closeTrade_def Let_def)

lemma step_both:
  assumes "st_position st = Some pos"
    and "ptype pos = LONG \<and> candleLow (history ! i) \<le> sl pos \<and> tp pos \<le> candleHigh (history ! i)
         \<or> ptype pos = SHORT \<and> sl pos \<le> candleHigh (history ! i) \<and> candleLow (history ! i) \<le> tp pos"
  shows "backtestStep sf strat w history st i =
           closeTrade st pos (history ! i)
             (case ptype pos of LONG \<Rightarrow> percentOf (sl pos - entry pos) (entry pos)
                              | SHORT \<Rightarrow> percentOf (entry pos - sl pos) (entry pos))
             ''Stop Loss''"
  using assms by (auto simp: backtestStep_def exitCheck_def Let_def)


text \<open>
  Every position that the loop of \<open>runBacktest\<close> holds was opened by an entry rule:
  it is LONG and, on a history without negative prices, its stop is not above its
  entry.  (No entry rule opens a SHORT position.)
\<close>

lemma openPosition_long:
  assumes "openPosition sf strat w lb p t = Some pos"
  shows "ptype pos = LONG \<and> entry pos = p \<and> (sl pos = p * 0.98 \<or> sl pos = p * 0.97)"
  using assms by (cases strat) (auto simp: openPosition_def Let_def split: if_splits)

lemma backtestStep_position:
  assumes "st_position (backtestStep sf strat w history st i) = Some pos"
  shows "st_position st = Some pos
       \<or> (st_position st = None
          \<and> openPosition sf strat w (take (i + 1) (map price history))
               (price (history ! i)) (time (history ! i)) = Some pos)"
  using assms
  by (auto simp: backtestStep_def closeTrade_def Let_def split: option.splits)

lemma loop_positions:
  assumes nonneg: "\<forall>c \<in> set history. 0 \<le> price c"
    and init: "st_position st0 = None"
  shows "j \<le> length history \<Longrightarrow>
         st_position (foldl (backtestStep sf strat w history) st0 [50..<j]) = Some pos \<Longrightarrow>
         ptype pos = LONG \<and> 0 \<le> entry pos \<and> sl pos \<le> entry pos"
proof (induction j arbitrary: pos)
  case 0
  then show ?case using init by simp
next
  case (Suc j)
  show ?case
  proof (cases "50 \<le> j")
    case False
    then have "[50..<Suc j] = []" by simp
    with Suc.prems init show ?thesis by simp
  next
    case True
    then have upt: "[50..<Suc j] = [50..<j] @ [j]" by simp
    let ?st = "foldl (backtestStep sf strat w history) st0 [50..<j]"
    from Suc.prems(2) have "st_position (backtestStep sf strat w history ?st j) = Some pos"
      using True by simp
    from backtestStep_position [OF this] show ?thesis
    proof
      assume "st_position ?st = Some pos"
      with Suc.IH Suc.prems(1) show ?thesis by simp
    next
      assume "st_position ?st = None
          \<and> openPosition sf strat w (take (j + 1) (map price history))
               (price (history ! j)) (time (history ! j)) = Some pos"
      then have op: "ptype pos = LONG" "entry pos = price (history ! j)"
        "sl pos = price (history ! j) * 0.98 \<or> sl pos = price (history ! j) * 0.97"
        using openPosition_long by blast+
      have "0 \<le> price (history ! j)" using nonneg Suc.prems(1) by simp
      with op show ?thesis by auto
    qed
  qed
qed


text \<open>
  C5. On a candle whose intrabar low touches the stop-loss of the open LONG
  position and whose intrabar high touches its take-profit, the iteration of
  \<open>runBacktest\<close> takes the stop-loss branch: the position is closed, one trade is
  appended with reason "Stop Loss" and the percentage of the stop, never that of the
  target; symmetrically for a SHORT position (high touches the stop, low the
  target).  When the stop lies on the losing side of a non-negative entry price, as
  for every position the engine opens, the trade exits at the stop price and costs
  the fixed risk of 2% of the equity.
\<close>

theorem backtestStep_stop_before_target:
  assumes "st_position st = Some pos"
    and "ptype pos = LONG \<and> candleLow (history ! i) \<le> sl pos \<and> tp pos \<le> candleHigh (history ! i)
         \<or> ptype pos = SHORT \<and> sl pos \<le> candleHigh (history ! i) \<and> candleLow (history ! i) \<le> tp pos"
  shows "(let st' = backtestStep sf strat w history st i;
              t = last (st_trades st')
          in st_position st' = None
           \<and> st_trades st' = st_trades st @ [t]
           \<and> reason t = ''Stop Loss''
           \<and> pnlPercent t = (case ptype pos of
                               LONG \<Rightarrow> percentOf (sl pos - entry pos) (entry pos)
                             | SHORT \<Rightarrow> percentOf (entry pos - sl pos) (entry pos))
           \<and> (0 \<le> entry pos
                \<and> (case ptype pos of LONG \<Rightarrow> sl pos \<le> entry pos | SHORT \<Rightarrow> entry pos \<le> sl pos)
              \<longrightarrow> \<not> js_gt (pnlPercent t) (Fin 0)
                \<and> exitPrice t = sl pos
                \<and> pnl t = - (st_equity st * 0.02)
                \<and> st_equity st' = st_equity st - st_equity st * 0.02))"
proof -
  define pct where "pct = (case ptype pos of
                LONG \<Rightarrow> percentOf (sl pos - entry pos) (entry pos)
              | SHORT \<Rightarrow> percentOf (entry pos - sl pos) (entry pos))"
  define st' where "st' = closeTrade st pos (history ! i) pct ''Stop Loss''"
  have step: "backtestStep sf strat w history st i = st'"
    unfolding st'_def pct_def by (rule step_both [OF assms])
  have loss: "\<not> js_gt pct (Fin 0)"
    if "0 \<le> entry pos"
       "case ptype pos of LONG \<Rightarrow> sl pos \<le> entry pos | SHORT \<Rightarrow> entry pos \<le> sl pos"
    using that unfolding pct_def by (cases "ptype pos") (simp_all add: percentOf_not_gain)
  have a: "st_position st' = None" "st_trades st' = st_trades st @ [last (st_trades st')]"
    "reason (last (st_trades st')) = ''Stop Loss''" "pnlPercent (last (st_trades st')) = pct"
    unfolding st'_def using closeTrade_any [of st pos "history ! i" pct "''Stop Loss''"] by blast+
  have b: "exitPrice (last (st_trades st')) = sl pos"
    "pnl (last (st_trades st')) = - (st_equity st * 0.02)"
    "st_equity st' = st_equity st - st_equity st * 0.02"
    if "\<not> js_gt pct (Fin 0)"
    unfolding st'_def
    using closeTrade_loss [OF that, of st pos "history ! i" "''Stop Loss''"] by blast+
  show ?thesis
    unfolding Let_def step pct_def [symmetric]
    using a b loss by simp
qed

theorem backtestStep_stop_before_target_witness:
  "(let st = \<lparr> st_trades = [], st_equity = 1000, st_maxEquity = 1000, st_maxDrawdown = Fin 0,
               st_equityCurve = [(''t0'', 1000)],
               st_position = Some \<lparr> ptype = LONG, entry = 100, ptime = ''t1'', sl = 98, tp = 104 \<rparr> \<rparr>;
        history = [\<lparr> time = ''t2'', price = 100, volume = None, high = Some 105, low = Some 97 \<rparr>];
        st' = backtestStep (\<lambda>_ _ _ _ _ _ _. 0) TREND_FOLLOWING (None :: unit option) history st 0;
        t = last (st_trades st')
    in candleLow (history ! 0) \<le> 98 \<and> 104 \<le> candleHigh (history ! 0)
     \<and> st_position st' = None \<and> reason t = ''Stop Loss'' \<and> exitPrice t = 98
     \<and> pnl t = - 20 \<and> st_equity st' = 980)
   \<and> (let st = \<lparr> st_trades = [], st_equity = 1000, st_maxEquity = 1000, st_maxDrawdown = Fin 0,
               st_equityCurve = [(''t0'', 1000)],
               st_position = Some \<lparr> ptype = SHORT, entry = 100, ptime = ''t1'', sl = 102, tp = 96 \<rparr> \<rparr>;
        history = [\<lparr> time = ''t2'', price = 100, volume = None, high = Some 103, low = Some 95 \<rparr>];
        st' = backtestStep (\<lambda>_ _ _ _ _ _ _. 0) TREND_FOLLOWING (None :: unit option) history st 0;
        t = last (st_trades st')
    in 102 \<le> candleHigh (history ! 0) \<and> candleLow (history ! 0) \<le> 96
     \<and> st_position st' = None \<and> reason t = ''Stop Loss'' \<and> exitPrice t = 102
     \<and> pnl t = - 20 \<and> st_equity st' = 980)"
  using backtestStep_stop_before_target
          [of "\<lparr> st_trades = [], st_equity = 1000, st_maxEquity = 1000, st_maxDrawdown = Fin 0,
                 st_equityCurve = [(''t0'', 1000)],
                 st_position = Some \<lparr> ptype = LONG, entry = 100, ptime = ''t1'', sl = 98, tp = 104 \<rparr> \<rparr>"
              "\<lparr> ptype = LONG, entry = 100, ptime = ''t1'', sl = 98, tp = 104 \<rparr>"
              "[\<lparr> time = ''t2'', price = 100, volume = None, high = Some 105, low = Some 97 \<rparr>]"
              0 "\<lambda>_ _ _ _ _ _ _. 0" TREND_FOLLOWING "None :: unit option"]
        backtestStep_stop_before_target
          [of "\<lparr> st_trades = [], st_equity = 1000, st_maxEquity = 1000, st_maxDrawdown = Fin 0,
                 st_equityCurve = [(''t0'', 1000)],
                 st_position = Some \<lparr> ptype = SHORT, entry = 100, ptime = ''t1'', sl = 102, tp = 96 \<rparr> \<rparr>"
              "\<lparr> ptype = SHORT, entry = 100, ptime = ''t1'', sl = 102, tp = 96 \<rparr>"
              "[\<lparr> time = ''t2'', price = 100, volume = None, high = Some 103, low = Some 95 \<rparr>]"
              0 "\<lambda>_ _ _ _ _ _ _. 0" TREND_FOLLOWING "None :: unit option"]
  by (simp add: Let_def candleLow_def candleHigh_def)

subsection \<open>Backtest: profit factor\<close>

lemma foldl_add_sum_list:
  "foldl (\<lambda>a r. a + f r) (a0::real) rs = a0 + sum_list (map f rs)"
  by (induction rs arbitrary: a0) simp_all

lemma profitFactor_equals_profit_iff:
  fixes gp gl :: real
  shows "((if gl = 0 then gp else gp / gl) = gp) = (gl = 0 \<or> gl = 1 \<or> gp = 0)"
  by (auto simp: field_simps)

lemma grossProfit_nonneg: "0 \<le> grossProfit ts"
proof -
  have "0 \<le> sum_list (map pnl (filter (\<lambda>t. pnl t > 0) ts))"
    by (rule sum_list_nonneg) auto
  then show ?thesis by (simp add: grossProfit_def foldl_add_sum_list)
qed

text \<open>
  A mean-reversion backtest of 52 candles with closes only: 37 closes at 100, one
  dip to 99.9 and back, then a slide to 95.2 at index 50, where the structure is
  ranging and the RSI is about 1.3, so a LONG is opened with its stop 3% lower; the
  close of 90 at index 51 hits the stop.  The only trade loses 2% of the capital.
\<close>

lemma runBacktest_one_losing_trade:
  "runBacktest (\<lambda>_ _ _ _ _ _ (_ :: unit option). 0) MEAN_REVERSION
        (map (\<lambda>p. \<lparr> time = ''t'', price = p, volume = None, high = None, low = None \<rparr>)
          (replicate 37 100 @
           [99.9, 100, 99.5, 99, 98.5, 98, 97.5, 97, 96.5, 96, 95.5, 95.4, 95.3, 95.2, 90])) 1000 None =
     \<lparr> totalTrades = 1, wins = 0, losses = 1, winRate = 0, profitFactor = 0,
       maxDrawdown = Fin 2, equityCurve = [(''t'', 1000), (''t'', 980)],
       trades =
         [\<lparr> entryTime = ''t'', exitTime = ''t'', side = LONG,
            entryPrice = 476 / 5, exitPrice = 11543 / 125, pnl = - 20,
            pnlPercent = Fin (- 3), reason = ''Stop Loss'' \<rparr>] \<rparr>"
  by code_simp

text \<open>
  C10, as stated, fails: the profit factor equals the gross profit "exactly when"
  the gross loss is 0 only in one direction.  After the single losing trade above
  the gross profit is 0 and the gross loss is 20, and the profit factor
  \<open>0 / 20 = 0\<close> equals the gross profit although the gross loss is not 0.
\<close>

theorem runBacktest_profitFactor_converse_counterexample:
  "profitFactor (runBacktest (\<lambda>_ _ _ _ _ _ (_ :: unit option). 0) MEAN_REVERSION
        (map (\<lambda>p. \<lparr> time = ''t'', price = p, volume = None, high = None, low = None \<rparr>)
          (replicate 37 100 @
           [99.9, 100, 99.5, 99, 98.5, 98, 97.5, 97, 96.5, 96, 95.5, 95.4, 95.3, 95.2, 90])) 1000 None) =
     grossProfit (trades (runBacktest (\<lambda>_ _ _ _ _ _ (_ :: unit option). 0) MEAN_REVERSION
        (map (\<lambda>p. \<lparr> time = ''t'', price = p, volume = None, high = None, low = None \<rparr>)
          (replicate 37 100 @
           [99.9, 100, 99.5, 99, 98.5, 98, 97.5, 97, 96.5, 96, 95.5, 95.4, 95.3, 95.2, 90])) 1000 None))
   \<and> grossLoss (trades (runBacktest (\<lambda>_ _ _ _ _ _ (_ :: unit option). 0) MEAN_REVERSION
        (map (\<lambda>p. \<lparr> time = ''t'', price = p, volume = None, high = None, low = None \<rparr>)
          (replicate 37 100 @
           [99.9, 100, 99.5, 99, 98.5, 98, 97.5, 97, 96.5, 96, 95.5, 95.4, 95.3, 95.2, 90])) 1000 None)) = 20"
  unfolding runBacktest_one_losing_trade by (simp add: grossProfit_def grossLoss_def)

text \<open>
  C10, amended.  For every history and strategy the result of \<open>runBacktest\<close> has a
  profit factor equal to the gross profit of its trades whenever their gross loss
  is 0, and equal to gross profit divided by gross loss otherwise, so that the
  division is only evaluated with a non-zero divisor.  The converse of the first
  part does not hold: the profit factor equals the gross profit exactly when the
  gross loss is 0 or 1 or the gross profit is 0.  Both sums are non-negative.
\<close>

theorem runBacktest_profitFactor:
  "profitFactor (runBacktest sf strat history cap w) =
     (if grossLoss (trades (runBacktest sf strat history cap w)) = 0
      then grossProfit (trades (runBacktest sf strat history cap w))
      else grossProfit (trades (runBacktest sf strat history cap w))
           / grossLoss (trades (runBacktest sf strat history cap w)))
   \<and> ((profitFactor (runBacktest sf strat history cap w)
          = grossProfit (trades (runBacktest sf strat history cap w)))
        = (grossLoss (trades (runBacktest sf strat history cap w)) = 0
           \<or> grossLoss (trades (runBacktest sf strat history cap w)) = 1
           \<or> grossProfit (trades (runBacktest sf strat history cap w)) = 0))
   \<and> 0 \<le> grossProfit (trades (runBacktest sf strat history cap w))
   \<and> 0 \<le> grossLoss (trades (runBacktest sf strat history cap w))"
proof -
  have pf: "profitFactor (runBacktest sf strat history cap w) =
     (if grossLoss (trades (runBacktest sf strat history cap w)) = 0
      then grossProfit (trades (runBacktest sf strat history cap w))
      else grossProfit (trades (runBacktest sf strat history cap w))
           / grossLoss (trades (runBacktest sf strat history cap w)))"
    by (simp add: runBacktest_def Let_def grossProfit_def grossLoss_def)
  have iff: "(profitFactor (runBacktest sf strat history cap w)
          = grossProfit (trades (runBacktest sf strat history cap w)))
        = (grossLoss (trades (runBacktest sf strat history cap w)) = 0
           \<or> grossLoss (trades (runBacktest sf strat history cap w)) = 1
           \<or> grossProfit (trades (runBacktest sf strat history cap w)) = 0)"
    by (simp only: pf profitFactor_equals_profit_iff)
  have "0 \<le> grossLoss (trades (runBacktest sf strat history cap w))"
    by (simp add: grossLoss_def)
  with pf iff grossProfit_nonneg show ?thesis by blast
qed

subsection \<open>Walk-forward windows\<close>

lemma runBacktest_50:
  assumes "length h = 50"
  shows "runBacktest sf strat h cap w =
     \<lparr> totalTrades = 0, wins = 0, losses = 0, winRate = 0, profitFactor = 0,
       maxDrawdown = Fin 0, equityCurve = [(time (h ! 0), cap)], trades = [] \<rparr>"
  using assms by (simp add: runBacktest_def Let_def grossProfit_def grossLoss_def)

lemma winRate_nonneg: "0 \<le> winRate (runBacktest sf strat h cap w)"
  by (simp add: runBacktest_def Let_def)

lemma wf_loop_stop:
  "\<not> int i < int (length h) - int (tr + te) \<Longrightarrow> wf_loop sf strat h tr te i acc = Some acc"
  by (subst wf_loop.simps) simp

lemma wf_loop_step:
  assumes "int i < int (length h) - int (tr + te)"
  shows "wf_loop sf strat h tr te i acc =
     wf_loop sf strat h tr te (i + te)
       (acc @ [\<lparr> windowIndex = i,
                 train = runBacktest sf strat (take tr (drop i h)) 1000 None,
                 test = runBacktest sf strat (take te (drop (i + tr) h))
                          (lastEquityOr1000
                             (equityCurve (runBacktest sf strat (take tr (drop i h)) 1000 None)))
                          None \<rparr>])
     \<and> length (take te (drop (i + tr) h)) = te"
proof -
  have len: "length (take te (drop (i + tr) h)) = te" using assms by auto
  show ?thesis using assms len by (subst wf_loop.simps) (simp add: Let_def)
qed

lemma wf_loop_results:
  assumes "0 < te"
  shows "\<exists>rs. wf_loop sf strat h tr te i acc = Some (acc @ rs)
           \<and> (\<forall>r \<in> set rs.
                 train r = runBacktest sf strat (take tr (drop (windowIndex r) h)) 1000 None
               \<and> test r = runBacktest sf strat (take te (drop (windowIndex r + tr) h))
                            (lastEquityOr1000 (equityCurve (train r))) None
               \<and> length (take te (drop (windowIndex r + tr) h)) = te)"
proof (induction "length h - i" arbitrary: i acc rule: less_induct)
  case less
  show ?case
  proof (cases "int i < int (length h) - int (tr + te)")
    case False
    then show ?thesis by (simp add: wf_loop_stop)
  next
    case True
    let ?r = "\<lparr> windowIndex = i,
                 train = runBacktest sf strat (take tr (drop i h)) 1000 None,
                 test = runBacktest sf strat (take te (drop (i + tr) h))
                          (lastEquityOr1000
                             (equityCurve (runBacktest sf strat (take tr (drop i h)) 1000 None)))
                          None \<rparr>"
    from wf_loop_step [OF True] have
      step: "wf_loop sf strat h tr te i acc = wf_loop sf strat h tr te (i + te) (acc @ [?r])"
      and len: "length (take te (drop (i + tr) h)) = te" by blast+
    have "length h - (i + te) < length h - i" using True assms by linarith
    from less [OF this, of "acc @ [?r]"] obtain rs where
      rs: "wf_loop sf strat h tr te (i + te) (acc @ [?r]) = Some ((acc @ [?r]) @ rs)"
      and ok: "\<forall>r \<in> set rs.
                 train r = runBacktest sf strat (take tr (drop (windowIndex r) h)) 1000 None
               \<and> test r = runBacktest sf strat (take te (drop (windowIndex r + tr) h))
                            (lastEquityOr1000 (equityCurve (train r))) None
               \<and> length (take te (drop (windowIndex r + tr) h)) = te" by blast
    have A: "wf_loop sf strat h tr te i acc = Some (acc @ ?r # rs)" using step rs by simp
    have B: "\<forall>r \<in> set (?r # rs).
                 train r = runBacktest sf strat (take tr (drop (windowIndex r) h)) 1000 None
               \<and> test r = runBacktest sf strat (take te (drop (windowIndex r + tr) h))
                            (lastEquityOr1000 (equityCurve (train r))) None
               \<and> length (take te (drop (windowIndex r + tr) h)) = te"
      using ok len by simp
    show ?thesis by (rule exI [of _ "?r # rs"], rule conjI, rule A, rule B)
  qed
qed

lemma wf_500:
  assumes "length h = 500"
  shows "\<exists>rs. wf_loop sf strat h 200 50 0 [] = Some rs \<and> map windowIndex rs = [0, 50, 100, 150, 200]"
proof -
  let ?R = "\<lambda>i. \<lparr> windowIndex = i,
                 train = runBacktest sf strat (take 200 (drop i h)) 1000 None,
                 test = runBacktest sf strat (take 50 (drop (i + 200) h))
                          (lastEquityOr1000
                             (equityCurve (runBacktest sf strat (take 200 (drop i h)) 1000 None)))
                          None \<rparr>"
  have step: "wf_loop sf strat h 200 50 i acc = wf_loop sf strat h 200 50 (i + 50) (acc @ [?R i])"
    if "i < 250" for i acc
  proof -
    have "int i < int (length h) - int (200 + 50)" using that assms by simp
    from wf_loop_step [OF this, of sf strat acc] show ?thesis by simp
  qed
  have stop: "wf_loop sf strat h 200 50 250 acc = Some acc" for acc
    using assms by (intro wf_loop_stop) simp
  have "wf_loop sf strat h 200 50 0 [] = wf_loop sf strat h 200 50 50 [?R 0]"
    using step [of 0 "[]"] by simp
  also have "\<dots> = wf_loop sf strat h 200 50 100 [?R 0, ?R 50]"
    using step [of 50 "[?R 0]"] by simp
  also have "\<dots> = wf_loop sf strat h 200 50 150 [?R 0, ?R 50, ?R 100]"
    using step [of 100 "[?R 0, ?R 50]"] by simp
  also have "\<dots> = wf_loop sf strat h 200 50 200 [?R 0, ?R 50, ?R 100, ?R 150]"
    using step [of 150 "[?R 0, ?R 50, ?R 100]"] by simp
  also have "\<dots> = wf_loop sf strat h 200 50 250 [?R 0, ?R 50, ?R 100, ?R 150, ?R 200]"
    using step [of 200 "[?R 0, ?R 50, ?R 100, ?R 150]"] by simp
  also have "\<dots> = Some [?R 0, ?R 50, ?R 100, ?R 150, ?R 200]"
    by (rule stop)
  finally show ?thesis by simp
qed

lemma sum_list_all_zero:
  "(\<And>r. r \<in> set rs \<Longrightarrow> f r = (0::real)) \<Longrightarrow> sum_list (map f rs) = 0"
  by (induction rs) simp_all

text \<open>
  C1 does not hold of the source: on 500 candles with \<open>trainSize = 200\<close> and
  \<open>testSize = 50\<close> the loop condition \<open>i < 500 - 250\<close> admits the indices 0, 50, 100,
  150, 200 only, so there are 5 window pairs, although the pair at index 250
  (train 250..449, test 450..499) lies inside the series.
\<close>

theorem runWalkForwardAnalysis_500_windows:
  assumes "length history = 500"
  shows "\<exists>r. runWalkForwardAnalysis sf strat history 200 50 = Some r
           \<and> length (periodResults r) = 5
           \<and> map windowIndex (periodResults r) = [0, 50, 100, 150, 200]
           \<and> length (take 200 (drop 250 history)) = 200
           \<and> length (take 50 (drop (250 + 200) history)) = 50"
proof -
  from wf_500 [OF assms, of sf strat] obtain rs where
    rs: "wf_loop sf strat history 200 50 0 [] = Some rs"
    and idx: "map windowIndex rs = [0, 50, 100, 150, 200]" by auto
  from idx have "length (map windowIndex rs) = 5" by simp
  then have len: "length rs = 5" by simp
  show ?thesis using rs idx len assms
    by (simp add: runWalkForwardAnalysis_def Let_def)
qed

theorem runWalkForwardAnalysis_500_windows_witness:
  "length (replicate 500 \<lparr> time = ''t'', price = 100, volume = None, high = None, low = None \<rparr>) = 500
   \<and> (\<exists>r. runWalkForwardAnalysis (\<lambda>_ _ _ _ _ _ (_ :: unit option). 0) TREND_FOLLOWING
             (replicate 500 \<lparr> time = ''t'', price = 100, volume = None, high = None, low = None \<rparr>)
             200 50 = Some r
          \<and> length (periodResults r) = 5)"
proof -
  have h: "length (replicate 500 \<lparr> time = ''t'', price = 100, volume = None, high = None, low = None \<rparr>) = 500"
    by simp
  from runWalkForwardAnalysis_500_windows [OF h] show ?thesis using h by blast
qed

text \<open>
  C2. With the default test size 50, whatever the series, the strategy and the
  train size: the analysis returns; every test window is a slice of exactly 50
  candles, on which \<open>runBacktest\<close> runs no iteration of its candle loop (it starts at
  index 50), so that every test result has no trades and win rate 0; the average
  test win rate is 0; the stability of a window is \<open>max 0 (100 - train win rate)\<close>,
  and the overall stability is the mean of these values.
\<close>

theorem runWalkForwardAnalysis_default_test_size:
  "\<exists>r. runWalkForwardAnalysis sf strat history trainSize 50 = Some r
     \<and> (\<forall>p \<in> set (periodResults r).
           length (take 50 (drop (windowIndex p + trainSize) history)) = 50
         \<and> test p = runBacktest sf strat (take 50 (drop (windowIndex p + trainSize) history))
                      (lastEquityOr1000 (equityCurve (train p))) None
         \<and> [50..<length (take 50 (drop (windowIndex p + trainSize) history))] = []
         \<and> totalTrades (test p) = 0
         \<and> trades (test p) = []
         \<and> winRate (test p) = 0
         \<and> periodStability p = max 0 (100 - winRate (train p)))
     \<and> averageWinRate r = 0
     \<and> overallStability r =
         (if periodResults r = [] then 0
          else (\<Sum>p\<leftarrow>periodResults r. max 0 (100 - winRate (train p)))
               / real (length (periodResults r)))"
proof -
  have pos: "0 < (50::nat)" by simp
  from wf_loop_results [OF pos, of sf strat history trainSize 0 "[]"] obtain rs where
    rs: "wf_loop sf strat history trainSize 50 0 [] = Some rs"
    and ok: "\<forall>r \<in> set rs.
                 train r = runBacktest sf strat (take trainSize (drop (windowIndex r) history)) 1000 None
               \<and> test r = runBacktest sf strat (take 50 (drop (windowIndex r + trainSize) history))
                            (lastEquityOr1000 (equityCurve (train r))) None
               \<and> length (take 50 (drop (windowIndex r + trainSize) history)) = 50"
    by auto
  have each: "length (take 50 (drop (windowIndex p + trainSize) history)) = 50
         \<and> test p = runBacktest sf strat (take 50 (drop (windowIndex p + trainSize) history))
                      (lastEquityOr1000 (equityCurve (train p))) None
         \<and> [50..<length (take 50 (drop (windowIndex p + trainSize) history))] = []
         \<and> totalTrades (test p) = 0
         \<and> trades (test p) = []
         \<and> winRate (test p) = 0
         \<and> periodStability p = max 0 (100 - winRate (train p))"
    if "p \<in> set rs" for p
  proof -
    from ok that have tr: "train p = runBacktest sf strat (take trainSize (drop (windowIndex p) history)) 1000 None"
      and te: "test p = runBacktest sf strat (take 50 (drop (windowIndex p + trainSize) history))
                            (lastEquityOr1000 (equityCurve (train p))) None"
      and len: "length (take 50 (drop (windowIndex p + trainSize) history)) = 50"
      by blast+
    have zero: "totalTrades (test p) = 0 \<and> trades (test p) = [] \<and> winRate (test p) = 0"
      unfolding te by (simp only: runBacktest_50 [OF len]) simp
    have "0 \<le> winRate (train p)" unfolding tr by (rule winRate_nonneg)
    then have "periodStability p = max 0 (100 - winRate (train p))"
      using zero by (simp add: periodStability_def)
    then show ?thesis using te len zero by simp
  qed
  have wr0: "winRate (test p) = 0" if "p \<in> set rs" for p
    using each [OF that] by blast
  have ps: "periodStability p = max 0 (100 - winRate (train p))" if "p \<in> set rs" for p
    using each [OF that] by blast
  have wr: "foldl (\<lambda>a r. a + winRate (test r)) 0 rs = 0"
    using wr0 by (simp add: foldl_add_sum_list sum_list_all_zero)
  have "map periodStability rs = map (\<lambda>p. max 0 (100 - winRate (train p))) rs"
    using ps by simp
  then have "sum_list (map periodStability rs) =
            (\<Sum>p\<leftarrow>rs. max 0 (100 - winRate (train p)))"
    by (rule arg_cong)
  then have st: "foldl (\<lambda>a r. a + periodStability r) 0 rs =
            (\<Sum>p\<leftarrow>rs. max 0 (100 - winRate (train p)))"
    by (simp only: foldl_add_sum_list add_0)
  let ?r = "\<lparr> periodResults = rs,
             overallStability =
               (if length rs > 0 then (\<Sum>p\<leftarrow>rs. max 0 (100 - winRate (train p))) / real (length rs) else 0),
             averageWinRate = 0 \<rparr>"
  have res: "runWalkForwardAnalysis sf strat history trainSize 50 = Some ?r"
    using rs wr st by (simp add: runWalkForwardAnalysis_def Let_def)
  have pr: "periodResults ?r = rs" by simp
  show ?thesis
  proof (rule exI [of _ ?r], intro conjI)
    show "runWalkForwardAnalysis sf strat history trainSize 50 = Some ?r" by (rule res)
    show "\<forall>p \<in> set (periodResults ?r).
           length (take 50 (drop (windowIndex p + trainSize) history)) = 50
         \<and> test p = runBacktest sf strat (take 50 (drop (windowIndex p + trainSize) history))
                      (lastEquityOr1000 (equityCurve (train p))) None
         \<and> [50..<length (take 50 (drop (windowIndex p + trainSize) history))] = []
         \<and> totalTrades (test p) = 0
         \<and> trades (test p) = []
         \<and> winRate (test p) = 0
         \<and> periodStability p = max 0 (100 - winRate (train p))"
      unfolding pr using each by blast
    show "averageWinRate ?r = 0" by simp
    show "overallStability ?r =
         (if periodResults ?r = [] then 0
          else (\<Sum>p\<leftarrow>periodResults ?r. max 0 (100 - winRate (train p)))
               / real (length (periodResults ?r)))"
      by simp
  qed
qed

theorem runWalkForwardAnalysis_default_test_size_witness:
  "\<exists>r. runWalkForwardAnalysis (\<lambda>_ _ _ _ _ _ (_ :: unit option). 0) MEAN_REVERSION
          (replicate 300 \<lparr> time = ''t'', price = 100, volume = None, high = None, low = None \<rparr>)
          200 50 = Some r
     \<and> length (periodResults r) = 1
     \<and> totalTrades (test (hd (periodResults r))) = 0
     \<and> averageWinRate r = 0"
proof -
  let ?sf = "\<lambda>_ _ _ _ _ _ (_ :: unit option). (0::real)"
  let ?h = "replicate 300 \<lparr> time = ''t'', price = 100, volume = None, high = None, low = None \<rparr>"
  from runWalkForwardAnalysis_default_test_size [of ?sf MEAN_REVERSION ?h 200]
  obtain r where r: "runWalkForwardAnalysis ?sf MEAN_REVERSION ?h 200 50 = Some r"
    and each: "\<forall>p \<in> set (periodResults r). totalTrades (test p) = 0"
    and avg: "averageWinRate r = 0"
    by blast
  have s0: "int 0 < int (length ?h) - int (200 + 50)" by simp
  have s1: "\<not> int 50 < int (length ?h) - int (200 + 50)" by simp
  have "\<exists>p. wf_loop ?sf MEAN_REVERSION ?h 200 50 0 [] = Some [p]"
    using wf_loop_step [OF s0, of ?sf MEAN_REVERSION "[]"]
      wf_loop_stop [OF s1, of ?sf MEAN_REVERSION] by simp
  then obtain p where "wf_loop ?sf MEAN_REVERSION ?h 200 50 0 [] = Some [p]" ..
  with r have one: "periodResults r = [p]"
    by (auto simp: runWalkForwardAnalysis_def Let_def)
  with each have "totalTrades (test (hd (periodResults r))) = 0" by simp
  with r one avg show ?thesis by simp
qed

subsection \<open>Opportunity score of the enricher\<close>

lemma clamp_1_99: "1 \<le> min 99 (max 1 (x::real)) \<and> min 99 (max 1 x) \<le> 99"
  by simp

lemma calculateOpportunityScore_range:
  "1 \<le> calculateOpportunityScore sig regime cl h btc
   \<and> calculateOpportunityScore sig regime cl h btc \<le> 99"
  unfolding calculateOpportunityScore_def Let_def by (rule clamp_1_99)

lemma derivativesOverlay_lower:
  assumes "\<forall>fd. futuresData sig = Some fd \<longrightarrow> \<not> (3 < longShortRatio fd \<and> signalType sig \<noteq> S_DUMP)"
  shows "score \<le> fst (snd (derivativesOverlay sig score))"
  using assms by (auto simp: derivativesOverlay_def Let_def split: option.splits)

lemma enrich_long:
  assumes "50 \<le> length history"
  shows "opportunityScore (enrichSignal sig history btc) =
     min 99 (fst (snd (derivativesOverlay sig
        (calculateOpportunityScore sig (detectMarketRegime history (map price history))
           (classifyMove sig history (detectMarketRegime history (map price history))) history btc))))"
  using assms by (simp add: enrichSignal_def Let_def)


text \<open>
  C3, as stated, fails twice.  With fewer than 50 candles \<open>enrichSignal\<close> returns the
  raw probability of the signal, which the scanner sets to \<open>80 + drawdown / 2\<close> for an
  undervalued coin: 105 for a drawdown of 50%.  With 50 flat candles, a signal of
  probability 10 scores 1 (10, minus 5 for the unknown move, minus 10 for the RSI
  of 100, clamped to 1), and the crowded-longs rule then subtracts 30; the final
  \<open>Math.min(99, adjustedScore)\<close> bounds the result from above only.
\<close>

theorem enrichSignal_score_out_of_range_counterexample:
  "opportunityScore (enrichSignal
      \<lparr> signalType = S_UNDERVALUED, probability = 105, futuresData = None \<rparr> [] None) = 105
   \<and> opportunityScore (enrichSignal
        \<lparr> signalType = S_VOLUME_SPIKE, probability = 10,
          futuresData = Some \<lparr> openInterest = 0, longShortRatio = 3.5, fundingRate = 0 \<rparr> \<rparr>
        (replicate 50 \<lparr> time = ''t'', price = 100, volume = Some 1, high = None, low = None \<rparr>)
        None) = - 29"
  by code_simp

text \<open>
  C3, amended.  For every base signal and every optional BTC context: on a history
  of at least 50 candles the opportunity score of \<open>enrichSignal\<close> is at most 99, and
  it is at least 1 unless the crowded-longs rule of the derivatives overlay fires
  (long/short ratio above 3.0 on a signal other than DUMP); in particular it lies in
  \<open>[1, 99]\<close> without futures context and when only the adjustments +20 and +15 fire.
  On a history of fewer than 50 candles the opportunity score is the probability of
  the base signal.
\<close>

theorem enrichSignal_opportunityScore:
  "(length history < 50 \<longrightarrow>
      opportunityScore (enrichSignal sig history btc) = probability sig)
   \<and> (50 \<le> length history \<longrightarrow>
        opportunityScore (enrichSignal sig history btc) \<le> 99
        \<and> ((\<forall>fd. futuresData sig = Some fd \<longrightarrow>
                  \<not> (3 < longShortRatio fd \<and> signalType sig \<noteq> S_DUMP))
            \<longrightarrow> 1 \<le> opportunityScore (enrichSignal sig history btc)))"
proof (intro conjI impI)
  assume "length history < 50"
  then show "opportunityScore (enrichSignal sig history btc) = probability sig"
    by (simp add: enrichSignal_def)
next
  assume "50 \<le> length history"
  then show "opportunityScore (enrichSignal sig history btc) \<le> 99"
    by (simp add: enrich_long)
next
  let ?score = "calculateOpportunityScore sig (detectMarketRegime history (map price history))
           (classifyMove sig history (detectMarketRegime history (map price history))) history btc"
  assume len: "50 \<le> length history"
    and calm: "\<forall>fd. futuresData sig = Some fd \<longrightarrow>
                  \<not> (3 < longShortRatio fd \<and> signalType sig \<noteq> S_DUMP)"
  have "1 \<le> ?score" using calculateOpportunityScore_range by blast
  also have "?score \<le> fst (snd (derivativesOverlay sig ?score))"
    by (rule derivativesOverlay_lower [OF calm])
  finally have "1 \<le> min 99 (fst (snd (derivativesOverlay sig ?score)))" by simp
  then show "1 \<le> opportunityScore (enrichSignal sig history btc)"
    by (simp only: enrich_long [OF len])
qed

theorem enrichSignal_opportunityScore_witness:
  "length ([] :: ChartPoint list) < 50
   \<and> opportunityScore (enrichSignal
        \<lparr> signalType = S_BREAKOUT, probability = 85,
          futuresData = Some \<lparr> openInterest = 10, longShortRatio = 0.5, fundingRate = 0 \<rparr> \<rparr>
        [] None) = 85
   \<and> 50 \<le> length (replicate 50 \<lparr> time = ''t'', price = 100, volume = Some 1, high = None, low = None \<rparr>)
   \<and> opportunityScore (enrichSignal
        \<lparr> signalType = S_BREAKOUT, probability = 85,
          futuresData = Some \<lparr> openInterest = 10, longShortRatio = 0.5, fundingRate = 0 \<rparr> \<rparr>
        (replicate 50 \<lparr> time = ''t'', price = 100, volume = Some 1, high = None, low = None \<rparr>)
        (Some UP)) \<le> 99
   \<and> 1 \<le> opportunityScore (enrichSignal
        \<lparr> signalType = S_BREAKOUT, probability = 85,
          futuresData = Some \<lparr> openInterest = 10, longShortRatio = 0.5, fundingRate = 0 \<rparr> \<rparr>
        (replicate 50 \<lparr> time = ''t'', price = 100, volume = Some 1, high = None, low = None \<rparr>)
        (Some UP))"
  using enrichSignal_opportunityScore
          [of "[]" "\<lparr> signalType = S_BREAKOUT, probability = 85,
                 futuresData = Some \<lparr> openInterest = 10, longShortRatio = 0.5, fundingRate = 0 \<rparr> \<rparr>"
              None]
        enrichSignal_opportunityScore
          [of "replicate 50 \<lparr> time = ''t'', price = 100, volume = Some 1, high = None, low = None \<rparr>"
              "\<lparr> signalType = S_BREAKOUT, probability = 85,
                 futuresData = Some \<lparr> openInterest = 10, longShortRatio = 0.5, fundingRate = 0 \<rparr> \<rparr>"
              "Some UP"]
  by simp

subsection \<open>Volume profile: the value-area loop\<close>

text \<open>
  The loop does not return from a state in which the cumulative volume is below
  the target, the lower side is used up (\<open>lowIdx \<le> 0\<close>) and the next bin above holds
  no volume: the \<open>else\<close> branch decrements \<open>lowIdx\<close> and adds 0, so the same state
  recurs with a smaller \<open>lowIdx\<close>.
\<close>

lemma valueAreaLoop_never_returns:
  assumes "js_lt (Fin c) tv" "lo \<le> 0" "0 \<le> hi" "hi < int bins - 1"
    and "\<not> js_gt (pb ! nat (hi + 1)) (Fin 0)"
  shows "valueAreaLoop bins pb tv (Fin c) lo hi = None"
proof (rule ccontr)
  assume "valueAreaLoop bins pb tv (Fin c) lo hi \<noteq> None"
  then obtain y where y: "valueAreaLoop bins pb tv (Fin c) lo hi = Some y" by auto
  define stuck where
    "stuck = (\<lambda>b p t cv (l::int) (h::int).
        (\<exists>c'. cv = Fin c') \<and> js_lt cv t \<and> l \<le> 0 \<and> 0 \<le> h \<and> h < int b - 1
        \<and> \<not> js_gt (p ! nat (h + 1)) (Fin 0))"
  have "\<not> stuck bins pb tv (Fin c) lo hi"
  proof (rule valueAreaLoop.raw_induct
           [where P = "\<lambda>b p t cv l h r. \<not> stuck b p t cv l h", OF _ y])
    fix f b p t cv l h r
    assume IH: "\<And>b p t cv l h r. f b p t cv l h = Some r \<Longrightarrow> \<not> stuck b p t cv l h"
      and body: "(if js_lt cv t \<and> (0 < l \<or> h < int b - 1)
           then let lowerVol = if 0 < l then p ! nat (l - 1) else Fin 0;
                    upperVol = if h < int b - 1 then p ! nat (h + 1) else Fin 0
                in if js_gt upperVol lowerVol
                   then f b p t (js_add cv upperVol) l (h + 1)
                   else f b p t (js_add cv lowerVol) (l - 1) h
           else Some (l, h)) = Some r"
    show "\<not> stuck b p t cv l h"
    proof
      assume s: "stuck b p t cv l h"
      then obtain c' where cv: "cv = Fin c'" by (auto simp: stuck_def)
      from body s have "f b p t cv (l - 1) h = Some r"
        by (simp add: stuck_def cv)
      from IH [OF this] have "\<not> stuck b p t cv (l - 1) h" .
      moreover have "stuck b p t cv (l - 1) h" using s by (simp add: stuck_def)
      ultimately show False by simp
    qed
  qed
  then show False using assms by (simp add: stuck_def)
qed


text \<open>
  Where the function does return, the invariant of the claim holds: on a non-empty
  price series with a non-negative volume for every price and at least one bin, the
  value-area loop leaves \<open>0 \<le> lowIdx \<le> pocIndex \<le> highIdx \<le> bins - 1\<close>, and the bin
  prices grow with the index.
\<close>

lemma foldl_min_le: "foldl min (a::real) xs \<le> a"
proof (induction xs arbitrary: a)
  case Nil
  show ?case by simp
next
  case (Cons x xs)
  have "foldl min (min a x) xs \<le> min a x" by (rule Cons.IH)
  also have "min a x \<le> a" by simp
  finally show ?case by simp
qed

lemma le_foldl_max: "(a::real) \<le> foldl max a xs"
proof (induction xs arbitrary: a)
  case Nil
  show ?case by simp
next
  case (Cons x xs)
  have "a \<le> max a x" by simp
  also have "max a x \<le> foldl max (max a x) xs" by (rule Cons.IH)
  finally show ?case by simp
qed

lemma list_min_le_max: "list_min xs \<le> list_max xs"
  unfolding list_min_def list_max_def
  using foldl_min_le [of "hd xs" "tl xs"] le_foldl_max [of "hd xs" "tl xs"] by linarith

lemma fillBins_nonneg:
  assumes "length prices \<le> length volumes" "\<forall>v \<in> set volumes. 0 \<le> v"
  shows "length (fillBins prices volumes mn step bins) = bins
       \<and> (\<forall>j < bins. \<exists>v. fillBins prices volumes mn step bins ! j = Fin v \<and> 0 \<le> v)"
proof -
  define f where "f = (\<lambda>profileBins i.
              let vol = num_at volumes i
              in case binIndexOf (js_div (Fin (prices ! i - mn)) step) bins of
                   None \<Rightarrow> profileBins
                 | Some b \<Rightarrow>
                     if 0 \<le> b \<and> b < int (length profileBins)
                     then profileBins [nat b := js_add (profileBins ! nat b) vol]
                     else profileBins)"
  have one: "length (f pb n) = bins \<and> (\<forall>j < bins. \<exists>v. f pb n ! j = Fin v \<and> 0 \<le> v)"
    if len: "length pb = bins" and nn: "\<forall>j < bins. \<exists>v. pb ! j = Fin v \<and> 0 \<le> v"
      and n: "n < length volumes" for pb n
  proof -
    obtain w where w: "num_at volumes n = Fin w" "0 \<le> w"
      using assms(2) n by (auto simp: num_at_def)
    show ?thesis
    proof (cases "binIndexOf (js_div (Fin (prices ! n - mn)) step) bins")
      case None
      then show ?thesis using len nn by (simp add: f_def)
    next
      case (Some b)
      show ?thesis
      proof (cases "0 \<le> b \<and> b < int (length pb)")
        case False
        then have "f pb n = pb" using Some len by (auto simp: f_def)
        then show ?thesis using len nn by simp
      next
        case True
        have nb: "nat b < bins" using True len by auto
        then obtain u where u: "pb ! nat b = Fin u" "0 \<le> u" using nn by blast
        have eq': "f pb n = pb [nat b := Fin (u + w)]"
          using Some w True u by (simp add: f_def Let_def)
        have "\<exists>v. (pb [nat b := Fin (u + w)]) ! j = Fin v \<and> 0 \<le> v"
          if "j < bins" for j
        proof (cases "j = nat b")
          case True
          then show ?thesis using u w len that by simp
        next
          case False
          then show ?thesis using nn that by simp
        qed
        then show ?thesis unfolding eq' using len by simp
      qed
    qed
  qed
  have inv: "length (foldl f (replicate bins (Fin 0)) [0..<n]) = bins
       \<and> (\<forall>j < bins. \<exists>v. foldl f (replicate bins (Fin 0)) [0..<n] ! j = Fin v \<and> 0 \<le> v)"
    if "n \<le> length prices" for n
    using that
  proof (induction n)
    case 0
    show ?case by simp
  next
    case (Suc n)
    then have IH: "length (foldl f (replicate bins (Fin 0)) [0..<n]) = bins"
      "\<forall>j < bins. \<exists>v. foldl f (replicate bins (Fin 0)) [0..<n] ! j = Fin v \<and> 0 \<le> v"
      by auto
    have "n < length volumes" using Suc.prems assms(1) by simp
    from one [OF IH this] show ?case by simp
  qed
  show ?thesis unfolding fillBins_def f_def [symmetric] using inv [of "length prices"] by simp
qed

lemma pocScan_index:
  assumes "0 < bins" "\<forall>j < bins. \<exists>v. pb ! j = Fin v \<and> 0 \<le> v"
  shows "fst (snd (pocScan pb bins)) < bins \<and> (\<exists>m. fst (pocScan pb bins) = Fin m)"
proof -
  let ?g = "\<lambda>acc i.
              case acc of (maxVol, pocIndex, totalVolume) \<Rightarrow>
                let vol = pb ! i
                in if js_gt vol maxVol then (vol, i, js_add totalVolume vol)
                   else (maxVol, pocIndex, js_add totalVolume vol)"
  have inv: "fst (snd (foldl ?g (Fin 0, 0, Fin 0) [0..<n])) < bins
           \<and> (\<exists>m. fst (foldl ?g (Fin 0, 0, Fin 0) [0..<n]) = Fin m)"
    if "n \<le> bins" for n
    using that
  proof (induction n)
    case 0
    show ?case using assms(1) by simp
  next
    case (Suc n)
    obtain mv pi tv where acc: "foldl ?g (Fin 0, 0, Fin 0) [0..<n] = (mv, pi, tv)"
      by (cases "foldl ?g (Fin 0, 0, Fin 0) [0..<n]") auto
    with Suc have pi: "pi < bins" and mv: "\<exists>m. mv = Fin m" by auto
    have "n < bins" using Suc.prems by simp
    then obtain v where v: "pb ! n = Fin v" using assms(2) by blast
    show ?case using acc pi mv v \<open>n < bins\<close> by (auto simp: Let_def)
  qed
  show ?thesis unfolding pocScan_def using inv [of bins] by simp
qed

lemma valueAreaLoop_bounds:
  assumes ret: "valueAreaLoop bins pb tv cv lo hi = Some r"
    and good: "\<exists>c. cv = Fin c" "0 \<le> lo" "lo \<le> hi" "hi \<le> int bins - 1"
    and vols: "\<forall>j < bins. \<exists>v. pb ! j = Fin v \<and> 0 \<le> v"
  shows "0 \<le> fst r \<and> fst r \<le> lo \<and> hi \<le> snd r \<and> snd r \<le> int bins - 1"
proof -
  define stuck where
    "stuck = (\<lambda>b p t cv (l::int) (h::int).
        (\<exists>c'. cv = Fin c') \<and> js_lt cv t \<and> l \<le> 0 \<and> 0 \<le> h \<and> h < int b - 1
        \<and> \<not> js_gt (p ! nat (h + 1)) (Fin 0))"
  define goodst where
    "goodst = (\<lambda>b p cv (l::int) (h::int).
        (\<exists>c'. cv = Fin c') \<and> 0 \<le> l \<and> l \<le> h \<and> h \<le> int b - 1
        \<and> (\<forall>j < b. \<exists>v. p ! j = Fin v \<and> 0 \<le> v))"
  have "\<not> stuck bins pb tv cv lo hi
      \<and> (goodst bins pb cv lo hi \<longrightarrow>
           0 \<le> fst r \<and> fst r \<le> lo \<and> hi \<le> snd r \<and> snd r \<le> int bins - 1)"
  proof (rule valueAreaLoop.raw_induct
           [where P = "\<lambda>b p t cv l h r. \<not> stuck b p t cv l h
                \<and> (goodst b p cv l h \<longrightarrow> 0 \<le> fst r \<and> fst r \<le> l \<and> h \<le> snd r \<and> snd r \<le> int b - 1)",
            OF _ ret])
    fix f b p t cv l h r
    assume IH: "\<And>b p t cv l h r. f b p t cv l h = Some r \<Longrightarrow>
               \<not> stuck b p t cv l h
               \<and> (goodst b p cv l h \<longrightarrow> 0 \<le> fst r \<and> fst r \<le> l \<and> h \<le> snd r \<and> snd r \<le> int b - 1)"
      and body: "(if js_lt cv t \<and> (0 < l \<or> h < int b - 1)
           then let lowerVol = if 0 < l then p ! nat (l - 1) else Fin 0;
                    upperVol = if h < int b - 1 then p ! nat (h + 1) else Fin 0
                in if js_gt upperVol lowerVol
                   then f b p t (js_add cv upperVol) l (h + 1)
                   else f b p t (js_add cv lowerVol) (l - 1) h
           else Some (l, h)) = Some r"
    have ns: "\<not> stuck b p t cv l h"
    proof
      assume s: "stuck b p t cv l h"
      then obtain c' where cv: "cv = Fin c'" by (auto simp: stuck_def)
      from body s have "f b p t cv (l - 1) h = Some r"
        by (simp add: stuck_def cv)
      from IH [OF this] have "\<not> stuck b p t cv (l - 1) h" by blast
      moreover have "stuck b p t cv (l - 1) h" using s by (simp add: stuck_def)
      ultimately show False by simp
    qed
    have bounds: "0 \<le> fst r \<and> fst r \<le> l \<and> h \<le> snd r \<and> snd r \<le> int b - 1"
      if g: "goodst b p cv l h"
    proof (cases "js_lt cv t \<and> (0 < l \<or> h < int b - 1)")
      case False
      with body have "r = (l, h)" by auto
      then show ?thesis using g by (simp add: goodst_def)
    next
      case True
      from g obtain c' where cv: "cv = Fin c'" by (auto simp: goodst_def)
      from g have l0: "0 \<le> l" and lh: "l \<le> h" and hb: "h \<le> int b - 1"
        and vs: "\<forall>j < b. \<exists>v. p ! j = Fin v \<and> 0 \<le> v" by (auto simp: goodst_def)
      define lowerVol where "lowerVol = (if 0 < l then p ! nat (l - 1) else Fin 0)"
      define upperVol where "upperVol = (if h < int b - 1 then p ! nat (h + 1) else Fin 0)"
      have "nat (l - 1) < b" if "0 < l" using that lh hb by linarith
      then obtain lv where lv: "lowerVol = Fin lv" "0 \<le> lv"
        using vs unfolding lowerVol_def by (cases "0 < l") auto
      have "nat (h + 1) < b" if "h < int b - 1" using that l0 lh by linarith
      then obtain uv where uv: "upperVol = Fin uv" "0 \<le> uv"
        using vs unfolding upperVol_def by (cases "h < int b - 1") auto
      show ?thesis
      proof (cases "js_gt upperVol lowerVol")
        case gt: True
        then have hlt: "h < int b - 1"
          using lv uv unfolding upperVol_def by (cases "h < int b - 1") (auto simp: js_gt_def)
        from body True gt have call: "f b p t (js_add cv upperVol) l (h + 1) = Some r"
          by (simp add: lowerVol_def upperVol_def Let_def)
        have "goodst b p (js_add cv upperVol) l (h + 1)"
          using cv uv l0 lh hlt vs by (simp add: goodst_def)
        with IH [OF call] show ?thesis by auto
      next
        case ngt: False
        from body True ngt have call: "f b p t (js_add cv lowerVol) (l - 1) h = Some r"
          by (simp add: lowerVol_def upperVol_def Let_def)
        show ?thesis
        proof (cases "0 < l")
          case True
          have "goodst b p (js_add cv lowerVol) (l - 1) h"
            using cv lv True lh hb vs by (simp add: goodst_def)
          with IH [OF call] show ?thesis by auto
        next
          case False
          with l0 have lz: "l = 0" by simp
          have lvz: "lowerVol = Fin 0" using False by (simp add: lowerVol_def)
          from True False have hlt: "h < int b - 1" and lt: "js_lt cv t" by auto
          have up: "upperVol = p ! nat (h + 1)" using hlt by (simp add: upperVol_def)
          have "stuck b p t (js_add cv lowerVol) (l - 1) h"
            using cv lvz lt lz lh hlt ngt up by (simp add: stuck_def)
          with IH [OF call] show ?thesis by blast
        qed
      qed
    qed
    show "\<not> stuck b p t cv l h
        \<and> (goodst b p cv l h \<longrightarrow> 0 \<le> fst r \<and> fst r \<le> l \<and> h \<le> snd r \<and> snd r \<le> int b - 1)"
      using ns bounds by blast
  qed
  moreover have "goodst bins pb cv lo hi" using good vols by (simp add: goodst_def)
  ultimately show ?thesis by blast
qed

lemma binKeys_nth:
  assumes "i < bins"
  shows "map (\<lambda>i. js_add (Fin mn) (js_mul (Fin (real i)) (Fin st))) [0..<bins] ! i
           = Fin (mn + real i * st)"
  using assms by simp

lemma calculateVolumeProfile_value_area:
  assumes ret: "calculateVolumeProfile prices volumes bins = Some vp"
    and bins: "0 < bins" and ne: "prices \<noteq> []"
    and len: "length prices \<le> length volumes"
    and vols: "\<forall>v \<in> set volumes. 0 \<le> v"
  shows "\<exists>a b c. vacLow vp = Some (Fin a) \<and> poc vp = Some (Fin b) \<and> vacHigh vp = Some (Fin c)
           \<and> a \<le> b \<and> b \<le> c"
proof -
  define mn where "mn = list_min prices"
  define st where "st = (list_max prices - mn) / real bins"
  define pb where "pb = fillBins prices volumes mn (Fin st) bins"
  define keys where "keys = map (\<lambda>i. js_add (Fin mn) (js_mul (Fin (real i)) (Fin st))) [0..<bins]"
  define p where "p = fst (snd (pocScan pb bins))"
  have st0: "0 \<le> st" using list_min_le_max [of prices] bins by (simp add: st_def mn_def)
  have step: "js_div (Fin (list_max prices - list_min prices)) (Fin (real bins)) = Fin st"
    using bins by (simp add: st_def mn_def)
  have pbs: "length pb = bins" "\<forall>j < bins. \<exists>v. pb ! j = Fin v \<and> 0 \<le> v"
    using fillBins_nonneg [OF len vols, of mn "Fin st" bins] by (auto simp: pb_def)
  from pocScan_index [OF bins pbs(2)] obtain m where
    pl: "p < bins" and m: "fst (pocScan pb bins) = Fin m" by (auto simp: p_def)
  have nev: "length prices \<noteq> 0" "length volumes \<noteq> 0" using ne len by auto
  have eq: "calculateVolumeProfile prices volumes bins =
      (case valueAreaLoop bins pb (js_mul (snd (snd (pocScan pb bins))) (Fin 0.7))
              (fst (pocScan pb bins)) (int p) (int p) of
         None \<Rightarrow> None
       | Some (lo, hi) \<Rightarrow>
           Some \<lparr> poc = key_at keys (int p), vacLow = key_at keys lo,
                  vacHigh = key_at keys hi,
                  profile = map (\<lambda>i. (keys ! i, pb ! i)) [0..<bins] \<rparr>)"
    unfolding pb_def keys_def p_def st_def mn_def using nev bins
    by (simp add: calculateVolumeProfile_def Let_def)
  from ret [unfolded eq] obtain lo hi where
    loop: "valueAreaLoop bins pb (js_mul (snd (snd (pocScan pb bins))) (Fin 0.7))
             (fst (pocScan pb bins)) (int p) (int p) = Some (lo, hi)"
    and vp: "vp = \<lparr> poc = key_at keys (int p), vacLow = key_at keys lo,
                      vacHigh = key_at keys hi,
                      profile = map (\<lambda>i. (keys ! i, pb ! i)) [0..<bins] \<rparr>"
    by (auto split: option.splits)
  have "0 \<le> fst (lo, hi) \<and> fst (lo, hi) \<le> int p \<and> int p \<le> snd (lo, hi)
        \<and> snd (lo, hi) \<le> int bins - 1"
    using pl m by (intro valueAreaLoop_bounds [OF loop _ _ _ _ pbs(2)]) auto
  then have b: "0 \<le> lo" "lo \<le> int p" "int p \<le> hi" "hi \<le> int bins - 1" by auto
  have klen: "length keys = bins" by (simp add: keys_def)
  have key: "key_at keys j = Some (Fin (mn + real (nat j) * st))" if "0 \<le> j" "j \<le> int bins - 1" for j
  proof -
    have "nat j < bins" using that by linarith
    then show ?thesis using that klen binKeys_nth [of "nat j" bins mn st]
      by (simp add: key_at_def keys_def)
  qed
  have k1: "vacLow vp = Some (Fin (mn + real (nat lo) * st))" using key [of lo] b by (simp add: vp)
  have k2: "poc vp = Some (Fin (mn + real p * st))" using key [of "int p"] b by (simp add: vp)
  have k3: "vacHigh vp = Some (Fin (mn + real (nat hi) * st))" using key [of hi] b by (simp add: vp)
  have "real (nat lo) \<le> real p" "real p \<le> real (nat hi)" using b by linarith+
  then have "mn + real (nat lo) * st \<le> mn + real p * st" "mn + real p * st \<le> mn + real (nat hi) * st"
    using st0 by (simp_all add: mult_right_mono)
  with k1 k2 k3 show ?thesis by blast
qed


lemma calculateVolumeProfile_returns_example: "\<exists>vp. calculateVolumeProfile [100, 124] [30, 10] 24 = Some vp"
proof -
  have mn: "list_min [100, 124] = 100" by (simp add: list_min_def)
  have mx: "list_max [100, 124] = 124" by (simp add: list_max_def)
  have fill: "fillBins [100, 124] [30, 10] 100 (Fin 1) 24 = Fin 30 # replicate 22 (Fin 0) @ [Fin 10]"
    by code_simp
  have scan: "pocScan (Fin 30 # replicate 22 (Fin 0) @ [Fin 10]) 24 = (Fin 30, 0, Fin 40)"
    by code_simp
  have loop: "valueAreaLoop 24 (Fin 30 # replicate 22 (Fin 0) @ [Fin 10]) (Fin 28) (Fin 30) 0 0 = Some (0, 0)"
    by (subst valueAreaLoop.simps) simp
  show ?thesis
    by (simp add: calculateVolumeProfile_def Let_def mn mx fill scan loop)
qed


lemma fillBins_two_prices:
  "fillBins [100, 124] [10, 10] 100 (Fin 1) 24 = Fin 10 # replicate 22 (Fin 0) @ [Fin 10]"
  by code_simp

lemma pocScan_two_prices:
  "pocScan (Fin 10 # replicate 22 (Fin 0) @ [Fin 10]) 24 = (Fin 10, 0, Fin 20)"
  by code_simp

text \<open>
  C8 does not hold of the source.  The input \<open>prices = [100, 124]\<close>,
  \<open>volumes = [10, 10]\<close> with the default 24 bins is not degenerate (two distinct
  prices, total volume 20), yet \<open>calculateVolumeProfile\<close> returns no profile: the
  volume sits in the bins 0 and 23, the point of control is bin 0 with volume 10
  below the target 14, and the value-area loop never ends.
\<close>

theorem calculateVolumeProfile_no_return:
  "calculateVolumeProfile [100, 124] [10, 10] 24 = None"
proof -
  have loop: "valueAreaLoop 24 (Fin 10 # replicate 22 (Fin 0) @ [Fin 10]) (Fin 14) (Fin 10) 0 0 = None"
    by (rule valueAreaLoop_never_returns) (simp_all add: js_gt_def nth_append)
  have mn: "list_min [100, 124] = 100" by (simp add: list_min_def)
  have mx: "list_max [100, 124] = 124" by (simp add: list_max_def)
  show ?thesis
    by (simp add: calculateVolumeProfile_def Let_def mn mx fillBins_two_prices
          pocScan_two_prices loop)
qed

subsection \<open>Whale detection on thin data\<close>

text \<open>
  C7. With fewer than 24 history points \<open>detectWhaleMovements\<close> returns net flow
  NEUTRAL, anomaly factor 0, turnover ratio 0 and the insufficient-data alert,
  whatever the current price, the 24h change, the 24h volume and the market cap are.
\<close>

theorem detectWhaleMovements_thin_history:
  assumes "length history < 24"
  shows "detectWhaleMovements currentPrice priceChange24h volume24h marketCap history =
           \<lparr> netFlowStatus = NEUTRAL_FLOW, volumeAnomalyFactor = 0, turnoverRatio = 0,
             whaleAlert = InsufficientData \<rparr>"
  using assms by (simp add: detectWhaleMovements_def)

theorem detectWhaleMovements_thin_history_witness:
  "length [\<lparr> time = ''t0'', price = 100, volume = Some 5, high = Some 101, low = Some 99 \<rparr>] < 24
   \<and> detectWhaleMovements 100 7 5000 1000000
        [\<lparr> time = ''t0'', price = 100, volume = Some 5, high = Some 101, low = Some 99 \<rparr>] =
      \<lparr> netFlowStatus = NEUTRAL_FLOW, volumeAnomalyFactor = 0, turnoverRatio = 0,
        whaleAlert = InsufficientData \<rparr>"
  using detectWhaleMovements_thin_history
          [of "[\<lparr> time = ''t0'', price = 100, volume = Some 5, high = Some 101, low = Some 99 \<rparr>]"
              100 7 5000 1000000]
  by simp

end
